theory Spec2Isabelle
  imports Complex_Main "HOL-Library.Word" "HOL-Library.Signed_Division"
begin

unbundle bit_operations_syntax

section \<open>PlayWindow: the window manager of PlayBuffer\<close>

text \<open>
  The development embeds \<^verbatim>\<open>PlayWindow.cpp\<close> (the window manager, the frame loop, the
  window procedure and the PNG loader) and the inline \<^verbatim>\<open>Draw\<close> of
  \<^verbatim>\<open>PlayGraphics.h\<close>.

  Conventions of the embedding:
  \<^item> C++ \<^verbatim>\<open>int\<close> values are HOL integers; an \<^verbatim>\<open>int\<close> product, sum or negation
    whose result leaves the 32-bit range, which C++ leaves undefined, is the error
    \<open>SignedOverflow\<close>. \<^verbatim>\<open>UINT\<close>, \<^verbatim>\<open>WPARAM\<close> and \<^verbatim>\<open>LPARAM\<close> are words. The
    64-bit clock readings are HOL integers, and a difference of two readings that leaves
    the 64-bit range is the same error.
  \<^item> \<^verbatim>\<open>float\<close> and \<^verbatim>\<open>double\<close> values are the reals they denote, and every
    operation on them rounds its exact result to the format (\<open>toFloat\<close>,
    \<open>toDouble\<close>). A division by zero is the error \<open>DivideByZero\<close>.
  \<^item> A pointer is an optional address (\<open>None\<close> is \<^verbatim>\<open>nullptr\<close>) into a store of the
    world; reading through a null or unmapped pointer is an error value.
  \<^item> What the operating system and the game supply (messages, clock readings, the focus
    window, the callbacks) is an input of the model; the calls the code makes to them
    are recorded as a trace of events.
\<close>

subsection \<open>Data\<close>

type_synonym addr = nat
type_synonym HWND = "nat option"
type_synonym Pixel = "32 word"
type_synonym UINT = "32 word"
type_synonym WPARAM = "64 word"
type_synonym LPARAM = "64 word"

text \<open>
  \<^verbatim>\<open>PixelData\<close>: the fields the source reads and writes. The pixel array a
  \<^verbatim>\<open>PixelData\<close> owns is held by value; \<open>None\<close> is a null \<^verbatim>\<open>pPixels\<close>.
\<close>

record PixelData =
  width :: int
  height :: int
  pPixels :: "Pixel list option"

text \<open>\<^verbatim>\<open>MouseData\<close>: \<^verbatim>\<open>pos.x\<close>, \<^verbatim>\<open>pos.y\<close>, \<^verbatim>\<open>left\<close>, \<^verbatim>\<open>right\<close>.\<close>

record MouseData =
  pos_x :: real
  pos_y :: real
  left :: bool
  right :: bool

record MSG =
  hwnd :: HWND
  message :: UINT
  wParam :: WPARAM
  lParam :: LPARAM

text \<open>The private data of namespace \<^verbatim>\<open>Play::Window\<close>.\<close>

record Window =
  m_scale :: int
  m_pPlayBuffer :: "addr option"
  m_pMouseData :: "addr option"
  m_hWindow :: HWND
  m_bCreated :: bool

text \<open>
  The world: the window manager's globals, the objects its pointers refer to, the
  thread's message queue with the pending quit request of \<^verbatim>\<open>PostQuitMessage\<close>, the
  GDI+ token, and the state of the game, which only the callbacks read.
\<close>

record 'g world =
  win :: Window
  pixelData :: "addr \<rightharpoonup> PixelData"
  mouseData :: "addr \<rightharpoonup> MouseData"
  msgQueue :: "MSG list"
  quitPosted :: "int option"
  g_pGDIToken :: nat
  game :: 'g

datatype error =
    AssertFail string
  | NullPointer
  | DanglingPointer
  | DivideByZero
  | SignedOverflow
  | BadArrayNewLength
  | BadAlloc
  | WildPointer

datatype event =
    EvPeekMessage "MSG option"
  | EvTranslateAccelerator MSG bool
  | EvTranslateMessage MSG
  | EvDispatchMessage MSG
  | EvQueryPerformanceCounter int
  | EvMainGameUpdate real bool
  | EvDwmFlush
  | EvMainGameExit
  | EvGdiplusShutdown
  | EvCreateWindow int int "nat option"

subsection \<open>Machine arithmetic\<close>

text \<open>
  The result of an \<^verbatim>\<open>int\<close> operation: the value when it fits 32 bits. Signed overflow is
  undefined in C++ and a failure here. \<open>inInt64\<close> is the range of \<^verbatim>\<open>LONGLONG\<close>.
\<close>

definition inInt :: "int \<Rightarrow> bool" where
  "inInt n = (- (2 ^ 31) \<le> n \<and> n < 2 ^ 31)"

definition checkedInt :: "int \<Rightarrow> error + int" where
  "checkedInt n = (if inInt n then Inr n else Inl SignedOverflow)"

definition inInt64 :: "int \<Rightarrow> bool" where
  "inInt64 n = (- (2 ^ 63) \<le> n \<and> n < 2 ^ 63)"

text \<open>
  Binary floating point. \<open>rne\<close> rounds a real to the nearest integer, a tie to the
  even one. \<open>binExponent x\<close> is the \<open>e\<close> with \<open>2 powi e \<le> \<bar>x\<bar> < 2 powi (e + 1)\<close>,
  computed from the bit length of the integer part (of the reciprocal, below 1).
  \<open>roundBinary p x\<close> is the nearest value to \<open>x\<close> with a significand of \<open>p\<close> bits, a
  tie going to the even significand: the rounding of IEEE 754 arithmetic in its default
  mode, with \<open>p = 24\<close> for \<^verbatim>\<open>float\<close> and \<open>p = 53\<close> for \<^verbatim>\<open>double\<close>. The exponent is not
  bounded: infinities, subnormal numbers and NaN are not represented, and the code that
  divides checks for a zero divisor first and fails there. The values the modelled code
  computes from a difference of clock readings that fits 64 bits, a clock frequency and
  a frame rate that are not zero, and 32-bit and 16-bit integers are 0 or of magnitude
  between \<open>2 powi (- 74)\<close> and \<open>2 powi 74\<close>, inside the normal range of both formats.
\<close>

definition rne :: "real \<Rightarrow> int" where
  "rne x =
     (let f = \<lfloor>x\<rfloor>
      in if x - of_int f < 1 / 2 then f
         else if 1 / 2 < x - of_int f then f + 1
         else if even f then f else f + 1)"

fun bitLength :: "nat \<Rightarrow> nat" where
  "bitLength n = (if n = 0 then 0 else Suc (bitLength (n div 2)))"

declare bitLength.simps [simp del]

definition binExponent :: "real \<Rightarrow> int" where
  "binExponent x =
     (if 1 \<le> \<bar>x\<bar> then int (bitLength (nat \<lfloor>\<bar>x\<bar>\<rfloor>)) - 1
      else - int (bitLength (nat (\<lceil>1 / \<bar>x\<bar>\<rceil> - 1))))"

definition roundBinary :: "nat \<Rightarrow> real \<Rightarrow> real" where
  "roundBinary p x =
     (if x = 0 then 0
      else of_int (rne (x / 2 powi (binExponent x - int p + 1)))
             * 2 powi (binExponent x - int p + 1))"

definition toFloat :: "real \<Rightarrow> real" where
  "toFloat = roundBinary 24"

definition toDouble :: "real \<Rightarrow> real" where
  "toDouble = roundBinary 53"

text \<open>
  \<^verbatim>\<open>(now.QuadPart - last.QuadPart) * 1000.0 / frequency.QuadPart\<close> in \<^verbatim>\<open>double\<close>: the
  two integers are converted, the product and the quotient are rounded.
\<close>

definition elapsedDouble :: "int \<Rightarrow> int \<Rightarrow> int \<Rightarrow> real" where
  "elapsedDouble freq lastT t =
     toDouble (toDouble (toDouble (of_int (t - lastT)) * 1000) / toDouble (of_int freq))"

text \<open>
  The same expression with what C++ leaves undefined as failures: the \<^verbatim>\<open>LONGLONG\<close>
  difference overflowing, and the division by a zero frequency.
\<close>

definition elapsedMilliseconds :: "int \<Rightarrow> int \<Rightarrow> int \<Rightarrow> error + real" where
  "elapsedMilliseconds freq lastT t =
     (if \<not> inInt64 (t - lastT) then Inl SignedOverflow
      else if freq = 0 then Inl DivideByZero
      else Inr (elapsedDouble freq lastT t))"

subsection \<open>Assertions\<close>

text \<open>
  Modelled from the spec: the macros \<^verbatim>\<open>PLAY_ASSERT\<close> and \<^verbatim>\<open>PLAY_ASSERT_MSG\<close> are
  defined outside the given sources. The specification calls a failed assertion a fatal
  precondition violation with an immediate abort, so a failed assertion ends the
  operation with the error \<open>AssertFail\<close> and nothing after it runs.
\<close>

definition PLAY_ASSERT_MSG :: "bool \<Rightarrow> string \<Rightarrow> error + unit" where
  "PLAY_ASSERT_MSG c m = (if c then Inr () else Inl (AssertFail m))"

definition PLAY_ASSERT :: "bool \<Rightarrow> string \<Rightarrow> error + unit" where
  "PLAY_ASSERT c expr = PLAY_ASSERT_MSG c expr"

definition window_not_initialised :: string where
  "window_not_initialised =
     ''Window Manager not initialised. Call Window::CreateManager() before using the Play::Window library functions.''"

definition ASSERT_WINDOW :: "'g world \<Rightarrow> error + unit" where
  "ASSERT_WINDOW w = PLAY_ASSERT_MSG (m_bCreated (win w)) window_not_initialised"

subsection \<open>Create and destroy\<close>

definition CreateManager :: "addr option \<Rightarrow> int \<Rightarrow> 'g world \<Rightarrow> error + (bool \<times> 'g world)" where
  "CreateManager pDisplayBuffer nScale w =
     (case PLAY_ASSERT (pDisplayBuffer \<noteq> None) ''pDisplayBuffer'' of
        Inl e \<Rightarrow> Inl e
      | Inr _ \<Rightarrow>
     (case PLAY_ASSERT (nScale > 0) ''nScale > 0'' of
        Inl e \<Rightarrow> Inl e
      | Inr _ \<Rightarrow>
          Inr (True, w\<lparr>win := (win w)\<lparr>m_pPlayBuffer := pDisplayBuffer,
                                       m_scale := nScale,
                                       m_bCreated := True\<rparr>\<rparr>)))"

definition DestroyManager :: "'g world \<Rightarrow> error + (bool \<times> 'g world)" where
  "DestroyManager w =
     (case ASSERT_WINDOW w of
        Inl e \<Rightarrow> Inl e
      | Inr _ \<Rightarrow> Inr (True, w\<lparr>win := (win w)\<lparr>m_bCreated := False\<rparr>\<rparr>))"

subsection \<open>Reading through the manager's pointers\<close>

definition playBuffer :: "'g world \<Rightarrow> error + PixelData" where
  "playBuffer w =
     (case m_pPlayBuffer (win w) of
        None \<Rightarrow> Inl NullPointer
      | Some a \<Rightarrow> (case pixelData w a of None \<Rightarrow> Inl DanglingPointer | Some pb \<Rightarrow> Inr pb))"

text \<open>A write \<^verbatim>\<open>m_pMouseData->field = v\<close> with no null test in front of it.\<close>

definition writeMouse :: "(MouseData \<Rightarrow> MouseData) \<Rightarrow> 'g world \<Rightarrow> error + 'g world" where
  "writeMouse f w =
     (case m_pMouseData (win w) of
        None \<Rightarrow> Inl NullPointer
      | Some a \<Rightarrow>
          (case mouseData w a of
             None \<Rightarrow> Inl DanglingPointer
           | Some md \<Rightarrow> Inr (w\<lparr>mouseData := (mouseData w)(a \<mapsto> f md)\<rparr>)))"

text \<open>The same write guarded by \<^verbatim>\<open>if (m_pMouseData)\<close>.\<close>

definition writeMouseIfRegistered :: "(MouseData \<Rightarrow> MouseData) \<Rightarrow> 'g world \<Rightarrow> error + 'g world" where
  "writeMouseIfRegistered f w =
     (if m_pMouseData (win w) \<noteq> None then writeMouse f w else Inr w)"

subsection \<open>Getters, RegisterMouse, Present\<close>

definition RegisterMouse :: "addr option \<Rightarrow> 'g world \<Rightarrow> error + 'g world" where
  "RegisterMouse pMouseData w =
     (case ASSERT_WINDOW w of
        Inl e \<Rightarrow> Inl e
      | Inr _ \<Rightarrow> Inr (w\<lparr>win := (win w)\<lparr>m_pMouseData := pMouseData\<rparr>\<rparr>))"

definition GetWidth :: "'g world \<Rightarrow> error + int" where
  "GetWidth w =
     (case ASSERT_WINDOW w of
        Inl e \<Rightarrow> Inl e
      | Inr _ \<Rightarrow> (case playBuffer w of Inl e \<Rightarrow> Inl e | Inr pb \<Rightarrow> Inr (width pb)))"

definition GetHeight :: "'g world \<Rightarrow> error + int" where
  "GetHeight w =
     (case ASSERT_WINDOW w of
        Inl e \<Rightarrow> Inl e
      | Inr _ \<Rightarrow> (case playBuffer w of Inl e \<Rightarrow> Inl e | Inr pb \<Rightarrow> Inr (height pb)))"

definition GetScale :: "'g world \<Rightarrow> error + int" where
  "GetScale w =
     (case ASSERT_WINDOW w of
        Inl e \<Rightarrow> Inl e
      | Inr _ \<Rightarrow> Inr (m_scale (win w)))"

text \<open>
  \<^verbatim>\<open>Present\<close> copies the display buffer to the window with \<^verbatim>\<open>StretchDIBits\<close> and
  returns the time the copy took in milliseconds. The two clock readings
  \<open>before\<close> and \<open>after\<close> and the clock frequency come from the operating system.
  The arguments of the copy are returned with the duration: destination width and
  height, source y, source width and source height, each an \<^verbatim>\<open>int\<close> expression.
\<close>

definition Present :: "int \<Rightarrow> int \<Rightarrow> int \<Rightarrow> 'g world \<Rightarrow> error + (real \<times> (int \<times> int \<times> int \<times> int \<times> int))" where
  "Present before after frequency w =
     (case ASSERT_WINDOW w of
        Inl e \<Rightarrow> Inl e
      | Inr _ \<Rightarrow>
     (case playBuffer w of
        Inl e \<Rightarrow> Inl e
      | Inr pb \<Rightarrow>
     (case checkedInt (width pb * m_scale (win w)) of
        Inl e \<Rightarrow> Inl e
      | Inr destWidth \<Rightarrow>
     (case checkedInt (height pb * m_scale (win w)) of
        Inl e \<Rightarrow> Inl e
      | Inr destHeight \<Rightarrow>
     (case checkedInt (height pb + 1) of
        Inl e \<Rightarrow> Inl e
      | Inr srcY \<Rightarrow>
     (case checkedInt (- height pb) of
        Inl e \<Rightarrow> Inl e
      | Inr srcHeight \<Rightarrow>
     (case elapsedMilliseconds frequency before after of
        Inl e \<Rightarrow> Inl e
      | Inr elapsed \<Rightarrow>
          Inr (elapsed, (destWidth, destHeight, srcY, width pb, srcHeight)))))))))"

subsection \<open>The window procedure\<close>

definition WM_DESTROY :: UINT where "WM_DESTROY = 0x0002"
definition WM_PAINT :: UINT where "WM_PAINT = 0x000F"
definition WM_QUIT :: UINT where "WM_QUIT = 0x0012"
definition WM_MOUSEMOVE :: UINT where "WM_MOUSEMOVE = 0x0200"
definition WM_LBUTTONDOWN :: UINT where "WM_LBUTTONDOWN = 0x0201"
definition WM_LBUTTONUP :: UINT where "WM_LBUTTONUP = 0x0202"
definition WM_RBUTTONDOWN :: UINT where "WM_RBUTTONDOWN = 0x0204"
definition WM_RBUTTONUP :: UINT where "WM_RBUTTONUP = 0x0205"
definition WM_MOUSELEAVE :: UINT where "WM_MOUSELEAVE = 0x02A3"

text \<open>
  \<^verbatim>\<open>GET_X_LPARAM\<close> is \<^verbatim>\<open>(int)(short)LOWORD(lp)\<close> and \<^verbatim>\<open>GET_Y_LPARAM\<close> is
  \<^verbatim>\<open>(int)(short)HIWORD(lp)\<close>: the two low 16-bit fields, read as signed.
\<close>

definition GET_X_LPARAM :: "LPARAM \<Rightarrow> int" where
  "GET_X_LPARAM lp = sint (ucast lp :: 16 word)"

definition GET_Y_LPARAM :: "LPARAM \<Rightarrow> int" where
  "GET_Y_LPARAM lp = sint (ucast (drop_bit 16 lp) :: 16 word)"

text \<open>What \<^verbatim>\<open>WndProc\<close> returns: 0, or whatever \<^verbatim>\<open>DefWindowProc\<close> returns.\<close>

datatype LRESULT = Zero | DefWindowProc HWND UINT WPARAM LPARAM

text \<open>
  The two assignments of the \<^verbatim>\<open>WM_MOUSEMOVE\<close> case. Integer division of C++ truncates
  towards zero (\<open>sdiv\<close>) and is undefined for a zero divisor. Each quotient is converted
  to \<^verbatim>\<open>float\<close>; in \<^verbatim>\<open>m_pPlayBuffer->height - static_cast<float>(...)\<close> the \<^verbatim>\<open>int\<close>
  height is converted to \<^verbatim>\<open>float\<close> and the subtraction is a \<^verbatim>\<open>float\<close> subtraction.
\<close>

definition mouseMove :: "LPARAM \<Rightarrow> 'g world \<Rightarrow> error + 'g world" where
  "mouseMove lp w =
     (if m_scale (win w) = 0 then Inl DivideByZero
      else
        (case writeMouse
                (\<lambda>md. md\<lparr>pos_x := toFloat (of_int (GET_X_LPARAM lp sdiv m_scale (win w)))\<rparr>) w of
           Inl e \<Rightarrow> Inl e
         | Inr w1 \<Rightarrow>
             (case playBuffer w1 of
                Inl e \<Rightarrow> Inl e
              | Inr pb \<Rightarrow>
                  writeMouse
                    (\<lambda>md. md\<lparr>pos_y :=
                            toFloat (toFloat (of_int (height pb))
                                     - toFloat (of_int (GET_Y_LPARAM lp sdiv m_scale (win w1))))\<rparr>)
                    w1)))"

definition mouseLeave :: "'g world \<Rightarrow> error + 'g world" where
  "mouseLeave w =
     (case writeMouse (\<lambda>md. md\<lparr>pos_x := - 1\<rparr>) w of
        Inl e \<Rightarrow> Inl e
      | Inr w1 \<Rightarrow> writeMouse (\<lambda>md. md\<lparr>pos_y := - 1\<rparr>) w1)"

definition withZero :: "error + 'g world \<Rightarrow> error + (LRESULT \<times> 'g world)" where
  "withZero r = (case r of Inl e \<Rightarrow> Inl e | Inr w \<Rightarrow> Inr (Zero, w))"

definition WndProc :: "HWND \<Rightarrow> UINT \<Rightarrow> WPARAM \<Rightarrow> LPARAM \<Rightarrow> 'g world \<Rightarrow> error + (LRESULT \<times> 'g world)" where
  "WndProc hWnd msg wp lp w =
     (case ASSERT_WINDOW w of
        Inl e \<Rightarrow> Inl e
      | Inr _ \<Rightarrow>
          if msg = WM_PAINT then Inr (Zero, w)
          else if msg = WM_DESTROY then Inr (Zero, w\<lparr>quitPosted := Some 0\<rparr>)
          else if msg = WM_LBUTTONDOWN then withZero (writeMouseIfRegistered (\<lambda>md. md\<lparr>left := True\<rparr>) w)
          else if msg = WM_LBUTTONUP then withZero (writeMouseIfRegistered (\<lambda>md. md\<lparr>left := False\<rparr>) w)
          else if msg = WM_RBUTTONDOWN then withZero (writeMouseIfRegistered (\<lambda>md. md\<lparr>right := True\<rparr>) w)
          else if msg = WM_RBUTTONUP then withZero (writeMouseIfRegistered (\<lambda>md. md\<lparr>right := False\<rparr>) w)
          else if msg = WM_MOUSEMOVE then
            withZero (if m_pMouseData (win w) \<noteq> None then mouseMove lp w else Inr w)
          else if msg = WM_MOUSELEAVE then withZero (mouseLeave w)
          else Inr (DefWindowProc hWnd msg wp lp, w))"

subsection \<open>The frame loop of HandleWindows\<close>

text \<open>
  The build configuration: whether \<^verbatim>\<open>_DEBUG\<close> is defined, and the constant
  \<^verbatim>\<open>FRAMES_PER_SECOND\<close>, whose definition is outside the given sources: an \<^verbatim>\<open>int\<close>
  constant, a parameter here. With the constant 0 the threshold of the wait is a
  division by zero, a failure of the wait below.
\<close>

record config =
  debug :: bool
  FRAMES_PER_SECOND :: int

text \<open>
  The threshold of the wait, \<^verbatim>\<open>1000.0f / FRAMES_PER_SECOND\<close>: the constant is converted
  to \<^verbatim>\<open>float\<close> and the quotient is a \<^verbatim>\<open>float\<close>.
\<close>

definition frameInterval :: "config \<Rightarrow> real" where
  "frameInterval c = toFloat (1000 / toFloat (of_int (FRAMES_PER_SECOND c)))"

text \<open>
  The argument of the update function, \<^verbatim>\<open>static_cast<float>(elapsedTime) / 1000.0f\<close>: the
  \<^verbatim>\<open>double\<close> is converted to \<^verbatim>\<open>float\<close> and the quotient is a \<^verbatim>\<open>float\<close>.
\<close>

definition elapsedSeconds :: "real \<Rightarrow> real" where
  "elapsedSeconds elapsed = toFloat (toFloat elapsed / 1000)"

text \<open>The functions the user of the library implements.\<close>

record 'g callbacks =
  MainGameUpdate :: "real \<Rightarrow> 'g world \<Rightarrow> bool \<times> 'g world"
  MainGameExit :: "'g world \<Rightarrow> int \<times> 'g world"

text \<open>
  What the operating system supplies during one pass of the loop body: the messages
  posted to the thread since the previous pass, the answer of
  \<^verbatim>\<open>TranslateAccelerator\<close>, the successive readings of
  \<^verbatim>\<open>QueryPerformanceCounter\<close>, and the window \<^verbatim>\<open>GetFocus\<close> returns.
\<close>

record iter_env =
  arrivals :: "MSG list"
  accelerator :: bool
  counters :: "int list"
  focus :: HWND

text \<open>
  \<^verbatim>\<open>PeekMessage\<close> with \<^verbatim>\<open>PM_REMOVE\<close>: removes and returns the oldest queued message;
  with an empty queue and a pending quit request it returns \<^verbatim>\<open>WM_QUIT\<close>.
\<close>

definition PeekMessage :: "'g world \<Rightarrow> MSG option \<times> 'g world" where
  "PeekMessage w =
     (case msgQueue w of
        m # q \<Rightarrow> (Some m, w\<lparr>msgQueue := q\<rparr>)
      | [] \<Rightarrow>
          (case quitPosted w of
             Some code \<Rightarrow>
               (Some \<lparr>hwnd = None, message = WM_QUIT, wParam = word_of_int code, lParam = 0\<rparr>,
                w\<lparr>quitPosted := None\<rparr>)
           | None \<Rightarrow> (None, w)))"

text \<open>
  \<^verbatim>\<open>DispatchMessage\<close> calls the window procedure of the message's window; the class
  registered by \<^verbatim>\<open>HandleWindows\<close> has \<^verbatim>\<open>WndProc\<close>.
\<close>

definition DispatchMessage :: "MSG \<Rightarrow> 'g world \<Rightarrow> error + 'g world" where
  "DispatchMessage m w =
     (if hwnd m \<noteq> None \<and> hwnd m = m_hWindow (win w) then
        (case WndProc (hwnd m) (message m) (wParam m) (lParam m) w of
           Inl e \<Rightarrow> Inl e
         | Inr (r, w') \<Rightarrow> Inr w')
      else Inr w)"

text \<open>The local variables of \<^verbatim>\<open>HandleWindows\<close> that live across loop passes.\<close>

record 'g loop_state =
  lworld :: "'g world"
  msg :: MSG
  elapsedTime :: real
  lastDrawTime :: int
  now :: int
  quit :: bool

text \<open>
  One pass of the loop body ends in one of four ways: at the \<^verbatim>\<open>break\<close>, at the end of
  the body, in a failure, or still polling the clock when the supplied readings end.
\<close>

datatype 'g iter_result =
    IterBreak "'g loop_state"
  | IterNext "'g loop_state"
  | IterFail error
  | IterPending

text \<open>The \<^verbatim>\<open>if (PeekMessage(...))\<close> block.\<close>

definition handleMessages :: "iter_env \<Rightarrow> 'g loop_state \<Rightarrow> 'g iter_result \<times> event list" where
  "handleMessages e ls =
     (case PeekMessage ((lworld ls)\<lparr>msgQueue := msgQueue (lworld ls) @ arrivals e\<rparr>) of
        (None, w1) \<Rightarrow> (IterNext (ls\<lparr>lworld := w1\<rparr>), [EvPeekMessage None])
      | (Some m, w1) \<Rightarrow>
          if message m = WM_QUIT then
            (IterBreak (ls\<lparr>lworld := w1, msg := m\<rparr>), [EvPeekMessage (Some m)])
          else if accelerator e then
            (IterNext (ls\<lparr>lworld := w1, msg := m\<rparr>),
             [EvPeekMessage (Some m), EvTranslateAccelerator m True])
          else
            (case DispatchMessage m w1 of
               Inl err \<Rightarrow>
                 (IterFail err,
                  [EvPeekMessage (Some m), EvTranslateAccelerator m False, EvTranslateMessage m,
                   EvDispatchMessage m])
             | Inr w2 \<Rightarrow>
                 (IterNext (ls\<lparr>lworld := w2, msg := m\<rparr>),
                  [EvPeekMessage (Some m), EvTranslateAccelerator m False, EvTranslateMessage m,
                   EvDispatchMessage m])))"

text \<open>
  The \<^verbatim>\<open>do ... while (elapsedTime < 1000.0f / FRAMES_PER_SECOND)\<close> loop over the clock
  readings \<open>ts\<close>. It ends at a reading whose elapsed milliseconds are not below the
  threshold, in a failure, or still waiting when every supplied reading is too early;
  the readings consumed are returned with the result. The comparison converts the
  \<^verbatim>\<open>float\<close> threshold to \<^verbatim>\<open>double\<close>, which changes no value.
\<close>

datatype wait_result =
    WaitDone int real
  | WaitFail error
  | WaitPending

fun busyWait :: "config \<Rightarrow> int \<Rightarrow> int \<Rightarrow> int list \<Rightarrow> wait_result \<times> int list" where
  "busyWait c freq lastT [] = (WaitPending, [])"
| "busyWait c freq lastT (t # ts) =
     (case elapsedMilliseconds freq lastT t of
        Inl e \<Rightarrow> (WaitFail e, [t])
      | Inr elapsed \<Rightarrow>
          if FRAMES_PER_SECOND c = 0 then (WaitFail DivideByZero, [t])
          else if elapsed < frameInterval c then
            (case busyWait c freq lastT ts of (r, used) \<Rightarrow> (r, t # used))
          else (WaitDone t elapsed, [t]))"

text \<open>The call of the update function, under \<^verbatim>\<open>#ifndef _DEBUG if (GetFocus() == m_hWindow)\<close>.\<close>

definition callUpdate :: "config \<Rightarrow> 'g callbacks \<Rightarrow> HWND \<Rightarrow> 'g loop_state \<Rightarrow> 'g loop_state \<times> event list" where
  "callUpdate c cb focused ls =
     (if debug c \<or> focused = m_hWindow (win (lworld ls)) then
        (case MainGameUpdate cb (elapsedSeconds (elapsedTime ls)) (lworld ls) of
           (q, w') \<Rightarrow>
             (ls\<lparr>lworld := w', quit := q\<rparr>,
              [EvMainGameUpdate (elapsedSeconds (elapsedTime ls)) q]))
      else (ls, []))"

definition iteration :: "config \<Rightarrow> 'g callbacks \<Rightarrow> int \<Rightarrow> iter_env \<Rightarrow> 'g loop_state \<Rightarrow> 'g iter_result \<times> event list" where
  "iteration c cb freq e ls =
     (case handleMessages e ls of
        (IterNext ls1, tr1) \<Rightarrow>
          (case busyWait c freq (lastDrawTime ls1) (counters e) of
             (WaitPending, used) \<Rightarrow> (IterPending, tr1 @ map EvQueryPerformanceCounter used)
           | (WaitFail err, used) \<Rightarrow> (IterFail err, tr1 @ map EvQueryPerformanceCounter used)
           | (WaitDone t elapsed, used) \<Rightarrow>
               (case callUpdate c cb (focus e) (ls1\<lparr>now := t, elapsedTime := elapsed\<rparr>) of
                  (ls3, tr3) \<Rightarrow>
                    (IterNext (ls3\<lparr>lastDrawTime := now ls3\<rparr>),
                     tr1 @ map EvQueryPerformanceCounter used @ tr3 @ [EvDwmFlush])))
      | (r, tr1) \<Rightarrow> (r, tr1))"

datatype 'g loop_result =
    LoopExit "'g loop_state"
  | LoopFail error
  | LoopPending

text \<open>
  \<^verbatim>\<open>while (!quit) { ... }\<close> over the passes the environment supplies; the trace has one
  list of events for each pass that started.
\<close>

fun frame_loop :: "config \<Rightarrow> 'g callbacks \<Rightarrow> int \<Rightarrow> iter_env list \<Rightarrow> 'g loop_state
                     \<Rightarrow> 'g loop_result \<times> event list list" where
  "frame_loop c cb freq [] ls = (if quit ls then (LoopExit ls, []) else (LoopPending, []))"
| "frame_loop c cb freq (e # es) ls =
     (if quit ls then (LoopExit ls, [])
      else
        (case iteration c cb freq e ls of
           (IterBreak ls', tr) \<Rightarrow> (LoopExit ls', [tr])
         | (IterFail err, tr) \<Rightarrow> (LoopFail err, [tr])
         | (IterPending, tr) \<Rightarrow> (LoopPending, [tr])
         | (IterNext ls', tr) \<Rightarrow>
             (case frame_loop c cb freq es ls' of (r, trs) \<Rightarrow> (r, tr # trs))))"

text \<open>
  What the operating system supplies to one run of \<^verbatim>\<open>HandleWindows\<close>: the handle
  \<^verbatim>\<open>CreateWindowW\<close> returns, the first clock reading, the clock frequency and the
  passes of the loop.
\<close>

record os_env =
  hWndCreated :: HWND
  counterAtStart :: int
  counterFrequency :: int
  frames :: "iter_env list"

datatype 'a outcome = Returned 'a | Failed error | Running

definition noMessage :: MSG where
  "noMessage = \<lparr>hwnd = None, message = 0, wParam = 0, lParam = 0\<rparr>"

text \<open>The locals of \<^verbatim>\<open>HandleWindows\<close> when the loop is entered, with the new window \<open>h\<close> stored.\<close>

definition loopStart :: "os_env \<Rightarrow> nat \<Rightarrow> 'g world \<Rightarrow> 'g loop_state" where
  "loopStart os h w =
     \<lparr>lworld = w\<lparr>win := (win w)\<lparr>m_hWindow := Some h\<rparr>\<rparr>, msg = noMessage,
      elapsedTime = 0, lastDrawTime = counterAtStart os, now = 0, quit = False\<rparr>"

text \<open>What follows the loop: the exit callback, the assertion on the token, the shutdown.\<close>

definition afterLoop :: "'g callbacks \<Rightarrow> 'g loop_state \<Rightarrow> (int \<times> 'g world) outcome \<times> event list" where
  "afterLoop cb ls =
     (case MainGameExit cb (lworld ls) of
        (code, w2) \<Rightarrow>
          (case PLAY_ASSERT (g_pGDIToken w2 \<noteq> 0) ''g_pGDIToken'' of
             Inl e \<Rightarrow> (Failed e, [EvMainGameExit])
           | Inr _ \<Rightarrow>
               (Returned (sint (ucast (wParam (msg ls)) :: 32 word), w2),
                [EvMainGameExit, EvGdiplusShutdown])))"

definition HandleWindows :: "config \<Rightarrow> 'g callbacks \<Rightarrow> os_env \<Rightarrow> 'g world
                               \<Rightarrow> (int \<times> 'g world) outcome \<times> event list" where
  "HandleWindows c cb os w =
     (case ASSERT_WINDOW w of
        Inl e \<Rightarrow> (Failed e, [])
      | Inr _ \<Rightarrow>
     (case playBuffer w of
        Inl e \<Rightarrow> (Failed e, [])
      | Inr pb \<Rightarrow>
     (case checkedInt (width pb * m_scale (win w)) of
        Inl e \<Rightarrow> (Failed e, [])
      | Inr cw \<Rightarrow>
     (case checkedInt (height pb * m_scale (win w)) of
        Inl e \<Rightarrow> (Failed e, [])
      | Inr ch \<Rightarrow>
     (case hWndCreated os of
        None \<Rightarrow> (Returned (0, w), [EvCreateWindow cw ch None])
      | Some h \<Rightarrow>
     (case frame_loop c cb (counterFrequency os) (frames os) (loopStart os h w) of
        (LoopFail e, trs) \<Rightarrow> (Failed e, EvCreateWindow cw ch (Some h) # concat trs)
      | (LoopPending, trs) \<Rightarrow> (Running, EvCreateWindow cw ch (Some h) # concat trs)
      | (LoopExit ls, trs) \<Rightarrow>
          (case afterLoop cb ls of
             (out, tr) \<Rightarrow> (out, EvCreateWindow cw ch (Some h) # concat trs @ tr))))))))"

subsection \<open>Loading a PNG image\<close>

text \<open>The status codes of the image codec (\<^verbatim>\<open>Gdiplus::Status\<close>), in the order of the enumeration.\<close>

datatype Status =
    Ok | GenericError | InvalidParameter | OutOfMemory | ObjectBusy | InsufficientBuffer
  | NotImplemented | Win32Error | WrongState | Aborted | FileNotFound | ValueOverflow
  | AccessDenied | UnknownImageFormat | FontFamilyNotFound | FontStyleNotFound
  | NotTrueTypeFont | UnsupportedGdiplusVersion | GdiplusNotInitialized | PropertyNotFound
  | PropertyNotSupported | ProfileNotFound

fun statusCode :: "Status \<Rightarrow> int" where
  "statusCode Ok = 0"
| "statusCode GenericError = 1"
| "statusCode InvalidParameter = 2"
| "statusCode OutOfMemory = 3"
| "statusCode ObjectBusy = 4"
| "statusCode InsufficientBuffer = 5"
| "statusCode NotImplemented = 6"
| "statusCode Win32Error = 7"
| "statusCode WrongState = 8"
| "statusCode Aborted = 9"
| "statusCode FileNotFound = 10"
| "statusCode ValueOverflow = 11"
| "statusCode AccessDenied = 12"
| "statusCode UnknownImageFormat = 13"
| "statusCode FontFamilyNotFound = 14"
| "statusCode FontStyleNotFound = 15"
| "statusCode NotTrueTypeFont = 16"
| "statusCode UnsupportedGdiplusVersion = 17"
| "statusCode GdiplusNotInitialized = 18"
| "statusCode PropertyNotFound = 19"
| "statusCode PropertyNotSupported = 20"
| "statusCode ProfileNotFound = 21"

text \<open>
  What \<^verbatim>\<open>Bitmap::FromFile\<close> yields: its status, the dimensions (\<^verbatim>\<open>UINT\<close>), the status
  of \<^verbatim>\<open>LockBits\<close> on the whole image, and the 32-bit ARGB pixels that a successful
  \<^verbatim>\<open>LockBits\<close> exposes at \<^verbatim>\<open>Scan0\<close>, indexed by offset.
\<close>

record Bitmap =
  GetLastStatus :: Status
  GetWidth_bm :: "32 word"
  GetHeight_bm :: "32 word"
  LockBits :: Status
  Scan0 :: "nat \<Rightarrow> Pixel"

text \<open>\<^verbatim>\<open>for (int b = 0; b < n; b++) *destPixels++ = *sourcePixels++;\<close>\<close>

function copyPixels :: "(nat \<Rightarrow> Pixel) \<Rightarrow> nat \<Rightarrow> nat \<Rightarrow> Pixel list \<Rightarrow> Pixel list" where
  "copyPixels src b n dst = (if b < n then copyPixels src (Suc b) n (dst[b := src b]) else dst)"
  by pat_completeness auto
termination
  by (relation "measure (\<lambda>(src, b, n, dst). n - b)") auto

declare copyPixels.simps [simp del]

text \<open>
  \<^verbatim>\<open>LoadPNGImage\<close>. The codec is the parameter \<open>FromFile\<close>; \<open>canAllocate n\<close> tells
  whether \<^verbatim>\<open>new Pixel[n]\<close> finds the memory; the small allocations before it (the
  wide file name, the \<^verbatim>\<open>Bitmap\<close> and the \<^verbatim>\<open>BitmapData\<close>) are taken to succeed. After
  the status test the code checks nothing more:
  \<^item> the \<^verbatim>\<open>UINT\<close> dimensions are stored in \<^verbatim>\<open>int\<close> fields (\<open>sint\<close>);
  \<^item> their \<^verbatim>\<open>int\<close> product is the length of the array: an overflow is undefined, a
    negative length makes \<^verbatim>\<open>new\<close> throw \<^verbatim>\<open>std::bad_array_new_length\<close>, a failed
    allocation \<^verbatim>\<open>std::bad_alloc\<close>, and nothing catches either;
  \<^item> the status of \<^verbatim>\<open>LockBits\<close> is ignored: after a failed lock \<^verbatim>\<open>Scan0\<close> is not
    set, and the copy loop reads through it as soon as there is a pixel to copy.
\<close>

definition LoadPNGImage :: "(string \<Rightarrow> Bitmap) \<Rightarrow> (nat \<Rightarrow> bool) \<Rightarrow> string \<Rightarrow> PixelData
                              \<Rightarrow> error + (int \<times> PixelData)" where
  "LoadPNGImage FromFile canAllocate fileAndPath destImage =
     (let bitmap = FromFile fileAndPath;
          status = statusCode (GetLastStatus bitmap)
      in if status \<noteq> statusCode Ok then Inr (- status, destImage)
         else
           (let w = sint (GetWidth_bm bitmap);
                h = sint (GetHeight_bm bitmap)
            in case checkedInt (w * h) of
                 Inl e \<Rightarrow> Inl e
               | Inr n \<Rightarrow>
                   if n < 0 then Inl BadArrayNewLength
                   else if \<not> canAllocate (nat n) then Inl BadAlloc
                   else if 0 < n \<and> LockBits bitmap \<noteq> Ok then Inl WildPointer
                   else
                     Inr (1, destImage\<lparr>width := w, height := h,
                                  pPixels := Some (copyPixels (Scan0 bitmap) 0 (nat n)
                                                     (replicate (nat n) 0))\<rparr>)))"

subsection \<open>Draw\<close>

type_synonym Point2f = "real \<times> real"
type_synonym BlendColour = "real \<times> real \<times> real \<times> real"

text \<open>\<^verbatim>\<open>enum BlendMode\<close> and the global \<^verbatim>\<open>blendMode\<close> of \<^verbatim>\<open>PlayGraphics.h\<close>.\<close>

datatype BlendMode = BLEND_NORMAL | BLEND_ADD | BLEND_MULTIPLY | BLEND_SUBTRACT

text \<open>
  The state the drawing functions work on: the blend mode, and in \<open>canvas\<close> the render
  target and the sprites.
\<close>

record 'c graphics =
  blendMode :: BlendMode
  canvas :: 'c

text \<open>The default argument \<^verbatim>\<open>globalMultiply = { 1.0f, 1.0f, 1.0f, 1.0f }\<close> of \<^verbatim>\<open>DrawTransparent\<close>.\<close>

definition defaultGlobalMultiply :: BlendColour where
  "defaultGlobalMultiply = (1, 1, 1, 1)"

text \<open>
  The two ways of putting a frame of a sprite on the render target that the
  specification names: the non-blending direct copy, and the alpha composite that
  applies a colour multiply under the blend mode. Neither is in the sources; they are
  parameters.
\<close>

record 'c blitters =
  directCopy :: "int \<Rightarrow> Point2f \<Rightarrow> int \<Rightarrow> 'c \<Rightarrow> 'c"
  composite :: "BlendMode \<Rightarrow> BlendColour \<Rightarrow> int \<Rightarrow> Point2f \<Rightarrow> int \<Rightarrow> 'c \<Rightarrow> 'c"

text \<open>
  Modelled from the spec: the body of \<^verbatim>\<open>DrawTransparent\<close> is missing, the header only
  declares it. The specification has it select the frame from the sprite's
  premultiplied buffer and alpha-composite it onto the target at the integer position,
  applying the multiply factor; the multiply is skipped as a fast path when the factor
  is exactly opaque white and the blend mode is normal, where composing falls back to
  the non-blending direct copy.
\<close>

definition DrawTransparent :: "'c blitters \<Rightarrow> int \<Rightarrow> Point2f \<Rightarrow> int \<Rightarrow> BlendColour
                                 \<Rightarrow> 'c graphics \<Rightarrow> 'c graphics" where
  "DrawTransparent b spriteId pos frameIndex globalMultiply g =
     (if globalMultiply = (1, 1, 1, 1) \<and> blendMode g = BLEND_NORMAL then
        g\<lparr>canvas := directCopy b spriteId pos frameIndex (canvas g)\<rparr>
      else
        g\<lparr>canvas := composite b (blendMode g) globalMultiply spriteId pos frameIndex (canvas g)\<rparr>)"

text \<open>
  From the header:
  \<^verbatim>\<open>inline void Draw(int spriteId, Point2f pos, int frameIndex)
     { DrawTransparent(spriteId, pos, frameIndex); }\<close>
\<close>

definition Draw :: "'c blitters \<Rightarrow> int \<Rightarrow> Point2f \<Rightarrow> int \<Rightarrow> 'c graphics \<Rightarrow> 'c graphics" where
  "Draw b spriteId pos frameIndex g =
     DrawTransparent b spriteId pos frameIndex defaultGlobalMultiply g"

subsection \<open>Predicates the properties use\<close>

text \<open>The data model of the specification gives a pixel buffer a positive width and height.\<close>

definition validDimensions :: "PixelData \<Rightarrow> bool" where
  "validDimensions pb = (0 < width pb \<and> 0 < height pb)"

text \<open>A mouse position inside the client area of the window, which is the buffer scaled up.\<close>

definition inWindow :: "'g world \<Rightarrow> PixelData \<Rightarrow> LPARAM \<Rightarrow> bool" where
  "inWindow w pb lp =
     (0 \<le> GET_X_LPARAM lp \<and> GET_X_LPARAM lp < width pb * m_scale (win w) \<and>
      0 \<le> GET_Y_LPARAM lp \<and> GET_Y_LPARAM lp < height pb * m_scale (win w))"

text \<open>The two events that end the loop: \<^verbatim>\<open>WM_QUIT\<close> retrieved, or the update returning true.\<close>

fun quitSignal :: "event \<Rightarrow> bool" where
  "quitSignal (EvPeekMessage (Some m)) = (message m = WM_QUIT)"
| "quitSignal (EvMainGameUpdate s q) = q"
| "quitSignal ev = False"

fun isUpdate :: "event \<Rightarrow> bool" where
  "isUpdate (EvMainGameUpdate s q) = True"
| "isUpdate ev = False"

fun isMessageEvent :: "event \<Rightarrow> bool" where
  "isMessageEvent (EvPeekMessage m) = True"
| "isMessageEvent (EvTranslateAccelerator m b) = True"
| "isMessageEvent (EvTranslateMessage m) = True"
| "isMessageEvent (EvDispatchMessage m) = True"
| "isMessageEvent ev = False"

fun isPeek :: "event \<Rightarrow> bool" where
  "isPeek (EvPeekMessage m) = True"
| "isPeek ev = False"

text \<open>
  What a successful \<^verbatim>\<open>CreateManager\<close> establishes and every operation keeps: a created
  manager has a positive scale and a display buffer pointer that is not null.
\<close>

definition managerInvariant :: "'g world \<Rightarrow> bool" where
  "managerInvariant w =
     (m_bCreated (win w) \<longrightarrow> 0 < m_scale (win w) \<and> m_pPlayBuffer (win w) \<noteq> None)"

subsection \<open>Example inputs\<close>

definition exampleBuffer :: PixelData where
  "exampleBuffer = \<lparr>width = 4, height = 3, pPixels = Some (replicate 12 0)\<rparr>"

definition emptyBuffer :: PixelData where
  "emptyBuffer = \<lparr>width = 0, height = 0, pPixels = None\<rparr>"

definition exampleMouse :: MouseData where
  "exampleMouse = \<lparr>pos_x = 0, pos_y = 0, left = False, right = False\<rparr>"

definition startWorld :: "unit world" where
  "startWorld =
     \<lparr>win = \<lparr>m_scale = 0, m_pPlayBuffer = None, m_pMouseData = None, m_hWindow = None,
             m_bCreated = False\<rparr>,
      pixelData = [1 \<mapsto> exampleBuffer, 3 \<mapsto> emptyBuffer],
      mouseData = [2 \<mapsto> exampleMouse],
      msgQueue = [], quitPosted = None, g_pGDIToken = 1, game = ()\<rparr>"

definition readyWorld :: "unit world" where
  "readyWorld =
     startWorld\<lparr>win := \<lparr>m_scale = 2, m_pPlayBuffer = Some 1, m_pMouseData = Some 2,
                        m_hWindow = Some 5, m_bCreated = True\<rparr>\<rparr>"

definition release50 :: config where
  "release50 = \<lparr>debug = False, FRAMES_PER_SECOND = 50\<rparr>"

definition idleGame :: "unit callbacks" where
  "idleGame = \<lparr>MainGameUpdate = (\<lambda>t w. (False, w)), MainGameExit = (\<lambda>w. (0, w))\<rparr>"

definition quittingGame :: "unit callbacks" where
  "quittingGame = \<lparr>MainGameUpdate = (\<lambda>t w. (True, w)), MainGameExit = (\<lambda>w. (0, w))\<rparr>"

text \<open>A game that quits at its first update and releases the pixel buffers on exit.\<close>

definition releasingGame :: "unit callbacks" where
  "releasingGame =
     \<lparr>MainGameUpdate = (\<lambda>t w. (True, w)),
      MainGameExit = (\<lambda>w. (0, w\<lparr>pixelData := Map.empty\<rparr>))\<rparr>"

definition leftDown :: MSG where
  "leftDown = \<lparr>hwnd = Some 5, message = WM_LBUTTONDOWN, wParam = 1, lParam = 0x00050007\<rparr>"

definition leftUp :: MSG where
  "leftUp = \<lparr>hwnd = Some 5, message = WM_LBUTTONUP, wParam = 0, lParam = 0x00050007\<rparr>"

definition quietPass :: iter_env where
  "quietPass = \<lparr>arrivals = [], accelerator = False, counters = [10, 25], focus = Some 5\<rparr>"

definition unfocusedPass :: iter_env where
  "unfocusedPass = \<lparr>arrivals = [], accelerator = False, counters = [10, 25], focus = None\<rparr>"

definition readyLoop :: "unit loop_state" where
  "readyLoop =
     \<lparr>lworld = readyWorld, msg = noMessage, elapsedTime = 0, lastDrawTime = 0, now = 0,
      quit = False\<rparr>"

text \<open>The same state with two messages pending, and the state one pass later.\<close>

definition busyLoop :: "unit loop_state" where
  "busyLoop = readyLoop\<lparr>lworld := readyWorld\<lparr>msgQueue := [leftDown, leftUp]\<rparr>\<rparr>"

definition afterBusyPass :: "unit loop_state" where
  "afterBusyPass =
     \<lparr>lworld = readyWorld\<lparr>mouseData := (mouseData readyWorld)(2 \<mapsto> exampleMouse\<lparr>left := True\<rparr>),
                           msgQueue := [leftUp]\<rparr>,
      msg = leftDown, elapsedTime = 25, lastDrawTime = 25, now = 25, quit = False\<rparr>"

text \<open>
  A pass whose only clock reading is 20; a frame rate of 60 with a pass whose only
  reading is 49999999, for a clock of 3 GHz; and a pass that retrieves \<^verbatim>\<open>WM_QUIT\<close>.
\<close>

definition pass20 :: iter_env where
  "pass20 = \<lparr>arrivals = [], accelerator = False, counters = [20], focus = Some 5\<rparr>"

definition release60 :: config where
  "release60 = \<lparr>debug = False, FRAMES_PER_SECOND = 60\<rparr>"

definition earlyPass :: iter_env where
  "earlyPass = \<lparr>arrivals = [], accelerator = False, counters = [49999999], focus = Some 5\<rparr>"

definition quitMessage :: MSG where
  "quitMessage = \<lparr>hwnd = None, message = WM_QUIT, wParam = 0, lParam = 0\<rparr>"

definition quitPass :: iter_env where
  "quitPass = \<lparr>arrivals = [quitMessage], accelerator = False, counters = [10, 25],
                focus = Some 5\<rparr>"

text \<open>A display buffer taller than a \<^verbatim>\<open>float\<close> counts exactly, shown unscaled.\<close>

definition tallBuffer :: PixelData where
  "tallBuffer = \<lparr>width = 4, height = 16777217, pPixels = None\<rparr>"

definition tallWorld :: "unit world" where
  "tallWorld =
     startWorld\<lparr>win := \<lparr>m_scale = 1, m_pPlayBuffer = Some 1, m_pMouseData = Some 2,
                        m_hWindow = Some 5, m_bCreated = True\<rparr>,
                pixelData := [1 \<mapsto> tallBuffer]\<rparr>"

definition exampleOS :: os_env where
  "exampleOS =
     \<lparr>hWndCreated = Some 5, counterAtStart = 0, counterFrequency = 1000, frames = [quietPass]\<rparr>"

text \<open>
  A codec that decodes a 2 by 1 image, reports a decoded image of width \<open>2\<^sup>3\<^sup>2 - 1\<close>, and
  finds no other file; and an allocator that never fails.
\<close>

definition exampleCodec :: "string \<Rightarrow> Bitmap" where
  "exampleCodec path =
     (if path = ''bat_4.png'' then
        \<lparr>GetLastStatus = Ok, GetWidth_bm = 2, GetHeight_bm = 1, LockBits = Ok,
         Scan0 = (\<lambda>i. if i = 0 then 0xFFFF0000 else 0xFF00FF00)\<rparr>
      else if path = ''wide.png'' then
        \<lparr>GetLastStatus = Ok, GetWidth_bm = 0xFFFFFFFF, GetHeight_bm = 1, LockBits = Ok,
         Scan0 = (\<lambda>i. 0)\<rparr>
      else
        \<lparr>GetLastStatus = FileNotFound, GetWidth_bm = 0, GetHeight_bm = 0,
         LockBits = InvalidParameter, Scan0 = (\<lambda>i. 0)\<rparr>)"

definition plentyOfMemory :: "nat \<Rightarrow> bool" where
  "plentyOfMemory n = True"

text \<open>Two blitters on a one-pixel canvas that leave different pixels.\<close>

definition exampleBlitters :: "Pixel blitters" where
  "exampleBlitters =
     \<lparr>directCopy = (\<lambda>spriteId pos frameIndex px. 0xFFFFFFFF),
      composite = (\<lambda>mode mult spriteId pos frameIndex px. 0x80808080)\<rparr>"

definition normalGraphics :: "Pixel graphics" where
  "normalGraphics = \<lparr>blendMode = BLEND_NORMAL, canvas = 0\<rparr>"

section \<open>Properties\<close>

subsection \<open>Rounding to the nearest integer\<close>

lemma rne_of_int [simp]: "rne (of_int n) = n"
  by (simp add: rne_def)

lemma rne_bounds: "x - 1 / 2 \<le> of_int (rne x) \<and> of_int (rne x) \<le> x + 1 / 2"
proof -
  have "of_int \<lfloor>x\<rfloor> \<le> x" "x < of_int \<lfloor>x\<rfloor> + 1" by linarith+
  then show ?thesis unfolding rne_def Let_def by (auto; linarith)
qed

lemma rne_mono:
  assumes "x \<le> y"
  shows "rne x \<le> rne y"
proof (cases "\<lfloor>x\<rfloor> = \<lfloor>y\<rfloor>")
  case True
  then show ?thesis using assms by (auto simp add: rne_def Let_def)
next
  case False
  then have "\<lfloor>x\<rfloor> + 1 \<le> \<lfloor>y\<rfloor>" using assms floor_mono [of x y] by linarith
  moreover have "rne x \<le> \<lfloor>x\<rfloor> + 1" by (simp add: rne_def Let_def)
  moreover have "\<lfloor>y\<rfloor> \<le> rne y" by (simp add: rne_def Let_def)
  ultimately show ?thesis by linarith
qed

lemma rne_minus: "rne (- x) = - rne x"
proof (cases "x = of_int \<lfloor>x\<rfloor>")
  case True
  then obtain n where "x = of_int n" by blast
  then have "rne (- x) = rne (of_int (- n))" by simp
  then show ?thesis using \<open>x = of_int n\<close> by (simp only: rne_of_int)
next
  case False
  have lt: "of_int \<lfloor>x\<rfloor> < x" "x < of_int \<lfloor>x\<rfloor> + 1"
    using False by linarith+
  have f: "\<lfloor>- x\<rfloor> = - \<lfloor>x\<rfloor> - 1"
  proof (rule floor_unique)
    show "of_int (- \<lfloor>x\<rfloor> - 1) \<le> - x" using lt by simp linarith
    show "- x < of_int (- \<lfloor>x\<rfloor> - 1) + 1" using lt by simp
  qed
  have e: "even (- \<lfloor>x\<rfloor> - 1) \<longleftrightarrow> \<not> even \<lfloor>x\<rfloor>" by simp
  show ?thesis
    unfolding rne_def Let_def f e using lt by (auto; linarith)
qed

subsection \<open>The binary exponent\<close>

lemma bitLength_upper: "n < 2 ^ bitLength n"
proof (induction n rule: bitLength.induct)
  case (1 n)
  show ?case
  proof (cases "n = 0")
    case True
    then show ?thesis by (simp add: bitLength.simps)
  next
    case False
    then have "n div 2 < 2 ^ bitLength (n div 2)" using 1 by simp
    then have "n < 2 * 2 ^ bitLength (n div 2)" by linarith
    then show ?thesis using False by (subst bitLength.simps) simp
  qed
qed

lemma bitLength_lower: "0 < n \<Longrightarrow> 2 ^ (bitLength n - 1) \<le> n"
proof (induction n rule: bitLength.induct)
  case (1 n)
  show ?case
  proof (cases "n div 2 = 0")
    case True
    then have "bitLength (n div 2) = 0" by (simp add: bitLength.simps)
    then have "bitLength n = 1" using 1(2) by (subst bitLength.simps) simp
    then show ?thesis using 1(2) by simp
  next
    case False
    then have ih: "2 ^ (bitLength (n div 2) - 1) \<le> n div 2" using 1 by simp
    have pos: "0 < bitLength (n div 2)" using False by (subst bitLength.simps) simp
    have "bitLength n = Suc (bitLength (n div 2))" using 1(2) by (subst bitLength.simps) simp
    then have "(2::nat) ^ (bitLength n - 1) = 2 * 2 ^ (bitLength (n div 2) - 1)"
      using pos by (cases "bitLength (n div 2)") simp_all
    also have "\<dots> \<le> 2 * (n div 2)" using ih by simp
    also have "\<dots> \<le> n" by simp
    finally show ?thesis .
  qed
qed

lemma bitLength_pos: "0 < n \<Longrightarrow> 0 < bitLength n"
  by (subst bitLength.simps) simp

lemma binExponent_bounds:
  assumes "x \<noteq> 0"
  shows "2 powi binExponent x \<le> \<bar>x\<bar>" and "\<bar>x\<bar> < 2 powi (binExponent x + 1)"
proof -
  define a where "a = \<bar>x\<bar>"
  have a: "0 < a" using assms by (simp add: a_def)
  have "2 powi binExponent x \<le> a \<and> a < 2 powi (binExponent x + 1)"
  proof (cases "1 \<le> a")
    case True
    define n where "n = nat \<lfloor>a\<rfloor>"
    have n0: "0 < n" using True by (simp add: n_def)
    have n1: "real n \<le> a" using True by (simp add: n_def)
    have n2: "a < real n + 1" using True by (simp add: n_def)
    note n = n0 n1 n2
    have e: "binExponent x = int (bitLength n) - 1"
      using True by (simp add: binExponent_def a_def n_def)
    have bl: "0 < bitLength n" using n(1) by (rule bitLength_pos)
    have e': "binExponent x = int (bitLength n - 1)" using e bl by simp
    have lo: "(2::real) ^ (bitLength n - 1) \<le> real n"
      using of_nat_mono [OF bitLength_lower [OF n(1)], where ?'a = real] by simp
    have "n + 1 \<le> 2 ^ bitLength n" using bitLength_upper [of n] by simp
    from of_nat_mono [OF this, where ?'a = real]
    have hi: "real n + 1 \<le> 2 ^ bitLength n" by simp
    have "binExponent x + 1 = int (bitLength n)" using e by simp
    then have "(2::real) powi (binExponent x + 1) = 2 ^ bitLength n" by simp
    moreover have "(2::real) powi binExponent x = 2 ^ (bitLength n - 1)" using e' by simp
    ultimately show ?thesis using lo hi n by linarith
  next
    case False
    define y where "y = 1 / a"
    define m where "m = nat (\<lceil>y\<rceil> - 1)"
    have y: "1 < y" using False a by (simp add: y_def)
    have c: "real_of_int \<lceil>y\<rceil> - 1 < y" "y \<le> real_of_int \<lceil>y\<rceil>" by linarith+
    have c2: "2 \<le> \<lceil>y\<rceil>" using y by linarith
    have m: "0 < m" "real m < y" "y \<le> real m + 1"
      using c c2 by (simp_all add: m_def)
    define k where "k = bitLength m"
    have e: "binExponent x = - int k"
      using False by (simp add: binExponent_def a_def y_def m_def k_def)
    have kpos: "0 < k" using m(1) by (simp add: k_def bitLength_pos)
    have lo: "(2::real) ^ (k - 1) \<le> real m"
      using of_nat_mono [OF bitLength_lower [OF m(1)], where ?'a = real] by (simp add: k_def)
    have "m + 1 \<le> 2 ^ k" using bitLength_upper [of m] by (simp add: k_def)
    from of_nat_mono [OF this, where ?'a = real]
    have hi: "real m + 1 \<le> 2 ^ k" by simp
    have y1: "y \<le> 2 ^ k" using hi m by linarith
    have y2: "2 ^ (k - 1) < y" using lo m by linarith
    have ay: "a = 1 / y" using a by (simp add: y_def)
    have p1: "(2::real) powi binExponent x = 1 / 2 ^ k"
      using e by (simp add: power_int_minus_divide)
    have "binExponent x + 1 = - int (k - 1)" using e kpos by simp
    then have p2: "(2::real) powi (binExponent x + 1) = 1 / 2 ^ (k - 1)"
      by (simp add: power_int_minus_divide)
    have "1 / 2 ^ k \<le> 1 / y" using y1 y by (simp add: frac_le)
    moreover have "1 / y < 1 / 2 ^ (k - 1)" using y2 by (simp add: frac_less2)
    ultimately show ?thesis using p1 p2 ay by simp
  qed
  then show "2 powi binExponent x \<le> \<bar>x\<bar>" and "\<bar>x\<bar> < 2 powi (binExponent x + 1)"
    by (simp_all add: a_def)
qed

lemma binExponent_unique:
  assumes "2 powi e \<le> \<bar>x\<bar>" and "\<bar>x\<bar> < 2 powi (e + 1)"
  shows "binExponent x = e"
proof -
  have "(0::real) < 2 powi e" by simp
  then have "0 < \<bar>x\<bar>" using assms(1) by linarith
  then have nz: "x \<noteq> 0" by simp
  note b = binExponent_bounds [OF nz]
  have "(2::real) powi e < 2 powi (binExponent x + 1)" using assms(1) b(2) by linarith
  then have 1: "e < binExponent x + 1"
    using power_int_increasing [of "binExponent x + 1" e "2::real"] by (cases "e < binExponent x + 1") auto
  have "(2::real) powi binExponent x < 2 powi (e + 1)" using assms(2) b(1) by linarith
  then have 2: "binExponent x < e + 1"
    using power_int_increasing [of "e + 1" "binExponent x" "2::real"] by (cases "binExponent x < e + 1") auto
  from 1 2 show ?thesis by simp
qed

lemma binExponent_minus [simp]: "binExponent (- x) = binExponent x"
  by (simp add: binExponent_def)

subsection \<open>Rounding to a binary format\<close>

lemma roundBinary_0 [simp]: "roundBinary p 0 = 0"
  by (simp add: roundBinary_def)

lemma roundBinary_minus: "roundBinary p (- x) = - roundBinary p x"
  by (simp add: roundBinary_def rne_minus)

text \<open>A value whose quotient by the unit of its binade is an integer is kept.\<close>

lemma roundBinary_exact:
  assumes "x / 2 powi (binExponent x - int p + 1) = of_int m"
  shows "roundBinary p x = x"
proof (cases "x = 0")
  case True
  then show ?thesis by simp
next
  case False
  have "roundBinary p x = of_int m * 2 powi (binExponent x - int p + 1)"
    using False assms by (simp add: roundBinary_def)
  also have "\<dots> = x" using assms [symmetric] by simp
  finally show ?thesis .
qed

text \<open>A positive value rounds to a value of its own binade, the upper end included.\<close>

lemma roundBinary_range:
  assumes "0 < x" and "0 < p"
  shows "2 powi binExponent x \<le> roundBinary p x"
    and "roundBinary p x \<le> 2 powi (binExponent x + 1)"
proof -
  define e where "e = binExponent x"
  define u :: real where "u = 2 powi (e - int p + 1)"
  have nz: "x \<noteq> 0" using assms(1) by simp
  have u: "0 < u" by (simp add: u_def)
  have b: "2 powi e \<le> x" "x < 2 powi (e + 1)"
    using binExponent_bounds [OF nz] assms(1) by (simp_all add: e_def)
  have lo: "(2::real) powi e = 2 ^ (p - 1) * u"
  proof -
    have "e = int (p - 1) + (e - int p + 1)" using assms(2) by simp
    then have "(2::real) powi e = 2 powi int (p - 1) * 2 powi (e - int p + 1)"
      by (metis power_int_add zero_neq_numeral)
    then show ?thesis by (simp add: u_def)
  qed
  have hi: "(2::real) powi (e + 1) = 2 ^ p * u"
  proof -
    have "e + 1 = int p + (e - int p + 1)" by simp
    then have "(2::real) powi (e + 1) = 2 powi int p * 2 powi (e - int p + 1)"
      by (metis power_int_add zero_neq_numeral)
    then show ?thesis by (simp add: u_def)
  qed
  have q1: "of_int (2 ^ (p - 1)) \<le> x / u" using b(1) lo u by (simp add: field_simps)
  have q2: "x / u \<le> of_int (2 ^ p)" using b(2) hi u by (simp add: field_simps)
  have r1: "2 ^ (p - 1) \<le> rne (x / u)" using rne_mono [OF q1] unfolding rne_of_int .
  have r2: "rne (x / u) \<le> 2 ^ p" using rne_mono [OF q2] unfolding rne_of_int .
  have r: "roundBinary p x = of_int (rne (x / u)) * u"
    using nz by (simp add: roundBinary_def e_def u_def)
  have "real_of_int (2 ^ (p - 1)) \<le> of_int (rne (x / u))" using r1 by (simp only: of_int_le_iff)
  then have "2 ^ (p - 1) * u \<le> of_int (rne (x / u)) * u"
    using u by simp
  then show "2 powi binExponent x \<le> roundBinary p x" using r lo by (simp add: e_def)
  have "real_of_int (rne (x / u)) \<le> of_int (2 ^ p)" using r2 by (simp only: of_int_le_iff)
  then have "of_int (rne (x / u)) * u \<le> 2 ^ p * u"
    using u by simp
  then show "roundBinary p x \<le> 2 powi (binExponent x + 1)" using r hi by (simp add: e_def)
qed

lemma roundBinary_nonneg: "0 \<le> x \<Longrightarrow> 0 < p \<Longrightarrow> 0 \<le> roundBinary p x"
proof (cases "x = 0")
  case False
  assume "0 \<le> x" "0 < p"
  then have "0 < x" using False by simp
  from roundBinary_range(1) [OF this \<open>0 < p\<close>] show ?thesis
    using zero_less_power_int [of "2::real" "binExponent x"] by linarith
qed simp

lemma roundBinary_mono_pos:
  assumes "0 < x" and "x \<le> y" and "0 < p"
  shows "roundBinary p x \<le> roundBinary p y"
proof -
  have y: "0 < y" using assms by simp
  have nz: "x \<noteq> 0" "y \<noteq> 0" using assms y by simp_all
  note bx = binExponent_bounds [OF nz(1)]
  note by' = binExponent_bounds [OF nz(2)]
  have "(2::real) powi binExponent x < 2 powi (binExponent y + 1)"
    using bx(1) by'(2) assms y by linarith
  then have le: "binExponent x \<le> binExponent y"
    using power_int_increasing [of "binExponent y + 1" "binExponent x" "2::real"]
    by (cases "binExponent x < binExponent y + 1") auto
  show ?thesis
  proof (cases "binExponent x = binExponent y")
    case True
    define u :: real where "u = 2 powi (binExponent y - int p + 1)"
    have u: "0 < u" by (simp add: u_def)
    have "x / u \<le> y / u" using assms(2) u by (simp add: divide_right_mono)
    from rne_mono [OF this] have "of_int (rne (x / u)) * u \<le> of_int (rne (y / u)) * u"
      using u by simp
    then show ?thesis using nz True by (simp add: roundBinary_def u_def)
  next
    case False
    then have "binExponent x + 1 \<le> binExponent y" using le by simp
    from power_int_increasing [OF this, of "2::real"]
    have "(2::real) powi (binExponent x + 1) \<le> 2 powi binExponent y" by simp
    with roundBinary_range(2) [OF assms(1,3)] roundBinary_range(1) [OF y assms(3)]
    show ?thesis by linarith
  qed
qed

lemma roundBinary_mono:
  assumes "x \<le> y" and "0 < p"
  shows "roundBinary p x \<le> roundBinary p y"
proof -
  consider "0 < x" | "x \<le> 0" "0 \<le> y" | "y < 0" by linarith
  then show ?thesis
  proof cases
    case 1
    then show ?thesis using roundBinary_mono_pos assms by blast
  next
    case 2
    have "0 \<le> roundBinary p y" using 2 assms(2) by (simp add: roundBinary_nonneg)
    moreover have "0 \<le> roundBinary p (- x)" using 2 assms(2) by (simp add: roundBinary_nonneg)
    ultimately show ?thesis by (simp add: roundBinary_minus)
  next
    case 3
    then have "0 < - y" "- y \<le> - x" using assms(1) by simp_all
    from roundBinary_mono_pos [OF this assms(2)] show ?thesis
      by (simp add: roundBinary_minus)
  qed
qed

text \<open>Rounding twice is rounding once.\<close>

lemma roundBinary_idem_pos:
  assumes "0 < x" and "0 < p"
  shows "roundBinary p (roundBinary p x) = roundBinary p x"
proof -
  define e where "e = binExponent x"
  define u :: real where "u = 2 powi (e - int p + 1)"
  define r where "r = roundBinary p x"
  have nz: "x \<noteq> 0" using assms(1) by simp
  have u: "0 < u" by (simp add: u_def)
  have rr: "r = of_int (rne (x / u)) * u"
    using nz by (simp add: r_def roundBinary_def e_def u_def)
  have rng: "2 powi e \<le> r" "r \<le> 2 powi (e + 1)"
    using roundBinary_range [OF assms] by (simp_all add: r_def e_def)
  have rpos: "0 < r" using rng(1) zero_less_power_int [of "2::real" e] by linarith
  show ?thesis
  proof (cases "r < 2 powi (e + 1)")
    case True
    have "binExponent r = e"
      using rng(1) True rpos by (intro binExponent_unique) simp_all
    then have "r / 2 powi (binExponent r - int p + 1) = of_int (rne (x / u))"
      using rr u by (simp add: u_def)
    from roundBinary_exact [OF this] show ?thesis by (simp add: r_def)
  next
    case False
    then have req: "r = 2 powi (e + 1)" using rng(2) by simp
    have "r < 2 powi (e + 1 + 1)"
      using req power_int_strict_increasing [of "e + 1" "e + 1 + 1" "2::real"] by simp
    then have be: "binExponent r = e + 1"
      using req rpos by (intro binExponent_unique) simp_all
    have "e + 1 = int (p - 1) + (e + 1 - int p + 1)" using assms(2) by simp
    then have "(2::real) powi (e + 1) = 2 powi int (p - 1) * 2 powi (e + 1 - int p + 1)"
      by (metis power_int_add zero_neq_numeral)
    then have "r / 2 powi (binExponent r - int p + 1) = of_int (2 ^ (p - 1))"
      using req be by simp
    from roundBinary_exact [OF this] show ?thesis by (simp add: r_def)
  qed
qed

lemma roundBinary_idem:
  assumes "0 < p"
  shows "roundBinary p (roundBinary p x) = roundBinary p x"
proof -
  consider "0 < x" | "x = 0" | "x < 0" by linarith
  then show ?thesis
  proof cases
    case 1
    then show ?thesis using roundBinary_idem_pos assms by blast
  next
    case 2
    then show ?thesis by simp
  next
    case 3
    then have "0 < - x" by simp
    from roundBinary_idem_pos [OF this assms] show ?thesis
      by (simp add: roundBinary_minus)
  qed
qed

text \<open>Integers of at most \<open>p\<close> bits are kept.\<close>

lemma roundBinary_of_int:
  assumes "\<bar>n\<bar> \<le> 2 ^ p" and "0 < p"
  shows "roundBinary p (of_int n) = of_int n"
proof (cases "n = 0")
  case True
  then show ?thesis by simp
next
  case False
  define x :: real where "x = of_int n"
  define e where "e = binExponent x"
  have nz: "x \<noteq> 0" using False by (simp add: x_def)
  note b = binExponent_bounds [OF nz]
  have "real_of_int \<bar>n\<bar> \<le> of_int (2 ^ p)" using assms(1) by (simp only: of_int_le_iff)
  then have ax: "\<bar>x\<bar> \<le> 2 ^ p" by (simp add: x_def)
  have "(2::real) powi e \<le> 2 powi int p" using b(1) ax by (simp add: e_def)
  then have ep: "e \<le> int p"
    using power_int_strict_increasing [of "int p" e "2::real"] by (cases "e \<le> int p") auto
  show ?thesis
  proof (cases "e = int p")
    case True
    have "\<bar>x\<bar> = 2 ^ p" using b(1) ax True by (simp add: e_def)
    then have xs: "x = 2 ^ p \<or> x = - (2 ^ p)" by linarith
    have "(2::real) ^ p = 2 ^ (p - 1) * 2" using assms(2) by (cases p) simp_all
    then have "x / 2 powi (binExponent x - int p + 1) = of_int (2 ^ (p - 1))
             \<or> x / 2 powi (binExponent x - int p + 1) = of_int (- (2 ^ (p - 1)))"
      using xs True by (auto simp add: e_def)
    then have "roundBinary p x = x"
      using roundBinary_exact [of x p "2 ^ (p - 1)"] roundBinary_exact [of x p "- (2 ^ (p - 1))"]
      by blast
    then show ?thesis by (simp add: x_def)
  next
    case False
    then have "0 \<le> int p - e - 1" using ep by simp
    define j where "j = nat (int p - e - 1)"
    have "e - int p + 1 = - int j" using \<open>0 \<le> int p - e - 1\<close> by (simp add: j_def)
    then have "(2::real) powi (binExponent x - int p + 1) = 1 / 2 ^ j"
      by (simp add: e_def power_int_minus_divide)
    then have "x / 2 powi (binExponent x - int p + 1) = of_int (n * 2 ^ j)"
      by (simp add: x_def)
    from roundBinary_exact [OF this] show ?thesis by (simp add: x_def)
  qed
qed

text \<open>The rounded value is within half a unit in the last place of the exact one.\<close>

lemma roundBinary_error:
  assumes "x \<noteq> 0"
  shows "\<bar>roundBinary p x - x\<bar> \<le> 2 powi (binExponent x - int p + 1) / 2"
proof -
  define u :: real where "u = 2 powi (binExponent x - int p + 1)"
  define d :: real where "d = of_int (rne (x / u)) - x / u"
  have u: "0 < u" by (simp add: u_def)
  have r: "roundBinary p x = of_int (rne (x / u)) * u"
    using assms by (simp add: roundBinary_def u_def)
  have h: "\<bar>d\<bar> \<le> 1 / 2"
    unfolding d_def using rne_bounds [of "x / u"] by linarith
  have b: "\<bar>d\<bar> * u \<le> 1 / 2 * u"
    using h u by (intro mult_right_mono) simp_all
  have "d * u = roundBinary p x - x"
    using u by (simp add: d_def r algebra_simps)
  then have "\<bar>roundBinary p x - x\<bar> = \<bar>d * u\<bar>" by simp
  also have "\<dots> = \<bar>d\<bar> * \<bar>u\<bar>" by (rule abs_mult)
  also have "\<dots> = \<bar>d\<bar> * u" using u by simp
  finally have c: "\<bar>roundBinary p x - x\<bar> = \<bar>d\<bar> * u" .
  have "\<bar>roundBinary p x - x\<bar> \<le> 1 / 2 * u" unfolding c by (rule b)
  then show ?thesis unfolding u_def by simp
qed

subsection \<open>float and double\<close>

lemma toFloat_mono: "x \<le> y \<Longrightarrow> toFloat x \<le> toFloat y"
  by (simp add: toFloat_def roundBinary_mono)

lemma toDouble_mono: "x \<le> y \<Longrightarrow> toDouble x \<le> toDouble y"
  by (simp add: toDouble_def roundBinary_mono)

lemma toFloat_idem [simp]: "toFloat (toFloat x) = toFloat x"
  by (simp add: toFloat_def roundBinary_idem)

lemma toFloat_0 [simp]: "toFloat 0 = 0"
  by (simp add: toFloat_def)

lemma toFloat_of_int: "\<bar>n\<bar> \<le> 16777216 \<Longrightarrow> toFloat (of_int n) = of_int n"
  using roundBinary_of_int [of n 24] by (simp add: toFloat_def)

lemma toDouble_of_int: "\<bar>n\<bar> \<le> 9007199254740992 \<Longrightarrow> toDouble (of_int n) = of_int n"
  using roundBinary_of_int [of n 53] by (simp add: toDouble_def)

lemma toFloat_nonneg: "0 \<le> x \<Longrightarrow> 0 \<le> toFloat x"
  by (simp add: toFloat_def roundBinary_nonneg)

text \<open>Evaluation of the rounding on numerals.\<close>

lemmas float_eval = toFloat_def toDouble_def roundBinary_def binExponent_def bitLength.simps
  rne_def Let_def

subsection \<open>Helper lemmas\<close>

lemma assert_window_fails:
  "\<not> m_bCreated (win w) \<Longrightarrow> ASSERT_WINDOW w = Inl (AssertFail window_not_initialised)"
  by (simp add: ASSERT_WINDOW_def PLAY_ASSERT_MSG_def)

lemma assert_window_passes: "m_bCreated (win w) \<Longrightarrow> ASSERT_WINDOW w = Inr ()"
  by (simp add: ASSERT_WINDOW_def PLAY_ASSERT_MSG_def)

lemmas WM_defs = WM_DESTROY_def WM_PAINT_def WM_QUIT_def WM_MOUSEMOVE_def WM_LBUTTONDOWN_def
  WM_LBUTTONUP_def WM_RBUTTONDOWN_def WM_RBUTTONUP_def WM_MOUSELEAVE_def

lemma sdiv_nonneg: "0 \<le> k \<Longrightarrow> 0 < l \<Longrightarrow> (k::int) sdiv l = k div l"
  by (cases "k = 0") (simp_all add: signed_divide_int_def)

lemma div_below:
  assumes "0 < (l::int)" and "k < h * l"
  shows "k div l < h"
proof (rule ccontr)
  assume "\<not> k div l < h"
  then have "h * l \<le> (k div l) * l"
    using assms(1) by (simp add: mult_right_mono)
  also have "\<dots> \<le> k"
    using pos_mod_sign [OF assms(1), of k] div_mult_mod_eq [of k l] by linarith
  finally show False using assms(2) by simp
qed

lemma mouseMove_registered:
  assumes "m_pMouseData (win w) = Some a" and "mouseData w a = Some md"
      and "m_pPlayBuffer (win w) = Some b" and "pixelData w b = Some pb"
      and "m_scale (win w) \<noteq> 0"
  shows "mouseMove lp w =
           Inr (w\<lparr>mouseData := (mouseData w)(a \<mapsto>
                  md\<lparr>pos_x := toFloat (of_int (GET_X_LPARAM lp sdiv m_scale (win w))),
                     pos_y := toFloat (toFloat (of_int (height pb))
                                - toFloat (of_int (GET_Y_LPARAM lp sdiv m_scale (win w))))\<rparr>)\<rparr>)"
  using assms by (simp add: mouseMove_def writeMouse_def playBuffer_def)

text \<open>The coordinates of a message are 16-bit values, and so are their quotients.\<close>

lemma GET_LPARAM_range:
  "- 32768 \<le> GET_X_LPARAM lp" "GET_X_LPARAM lp < 32768"
  "- 32768 \<le> GET_Y_LPARAM lp" "GET_Y_LPARAM lp < 32768"
  using sint_ge [of "ucast lp :: 16 word"] sint_lt [of "ucast lp :: 16 word"]
        sint_ge [of "ucast (drop_bit 16 lp) :: 16 word"]
        sint_lt [of "ucast (drop_bit 16 lp) :: 16 word"]
  by (simp_all add: GET_X_LPARAM_def GET_Y_LPARAM_def)

lemma sdiv_abs_le: "\<bar>(k::int) sdiv l\<bar> \<le> \<bar>k\<bar>"
proof -
  have nn: "0 \<le> \<bar>k\<bar> div \<bar>l\<bar>" by (simp add: div_int_pos_iff)
  have "\<bar>k sdiv l\<bar> = \<bar>sgn k\<bar> * \<bar>sgn l\<bar> * \<bar>\<bar>k\<bar> div \<bar>l\<bar>\<bar>"
    by (simp only: signed_divide_int_def abs_mult)
  also have "\<dots> = \<bar>sgn k\<bar> * \<bar>sgn l\<bar> * (\<bar>k\<bar> div \<bar>l\<bar>)"
    using nn by (simp only: abs_of_nonneg)
  also have "\<dots> \<le> \<bar>k\<bar> div \<bar>l\<bar>"
    by (cases "k = 0"; cases "l = 0") (simp_all add: abs_sgn_eq)
  also have "\<dots> \<le> \<bar>k\<bar>"
    by (cases "k = 0") (simp_all add: int_div_le_self)
  finally show ?thesis .
qed

lemma toFloat_quotient:
  assumes "- 32768 \<le> k" and "k < 32768"
  shows "toFloat (of_int (k sdiv l)) = of_int (k sdiv l)"
proof -
  have "\<bar>k sdiv l\<bar> \<le> \<bar>k\<bar>" by (rule sdiv_abs_le)
  then have "\<bar>k sdiv l\<bar> \<le> 16777216" using assms by linarith
  then show ?thesis by (rule toFloat_of_int)
qed

lemma mouseLeave_registered:
  assumes "m_pMouseData (win w) = Some a" and "mouseData w a = Some md"
  shows "mouseLeave w =
           Inr (w\<lparr>mouseData := (mouseData w)(a \<mapsto> md\<lparr>pos_x := - 1, pos_y := - 1\<rparr>)\<rparr>)"
  using assms by (simp add: mouseLeave_def writeMouse_def)

text \<open>The copy loop writes the source pixels \<open>b, ..., n - 1\<close> and keeps what lies below \<open>b\<close>.\<close>

lemma copyPixels_eq:
  "b \<le> n \<Longrightarrow> length dst = n \<Longrightarrow> copyPixels src b n dst = take b dst @ map src [b..<n]"
proof (induction src b n dst rule: copyPixels.induct)
  case (1 src b n dst)
  show ?case
  proof (cases "b < n")
    case True
    then have "copyPixels src b n dst = copyPixels src (Suc b) n (dst[b := src b])"
      by (subst copyPixels.simps) simp
    also have "\<dots> = take (Suc b) (dst[b := src b]) @ map src [Suc b..<n]"
      using 1 True by simp
    also have "take (Suc b) (dst[b := src b]) = take b dst @ [src b]"
      using True 1(3) by (simp add: take_Suc_conv_app_nth)
    finally show ?thesis using True by (simp add: upt_conv_Cons)
  next
    case False
    then show ?thesis using 1(2,3) by (subst copyPixels.simps) simp
  qed
qed

subsection \<open>Manager creation\<close>

text \<open>
  Claim C5, as stated, has creation fail for a display buffer of invalid dimensions.
  \<^verbatim>\<open>CreateManager\<close> asserts only that the pointer is not null and that the scale is
  positive: a buffer of width 0 and height 0 is accepted.
\<close>

theorem CreateManager_accepts_invalid_dimensions:
  "\<not> validDimensions emptyBuffer \<and> pixelData startWorld 3 = Some emptyBuffer \<and>
   CreateManager (Some 3) 1 startWorld =
     Inr (True, startWorld\<lparr>win := (win startWorld)\<lparr>m_pPlayBuffer := Some 3, m_scale := 1,
                                                    m_bCreated := True\<rparr>\<rparr>)"
  by (simp add: validDimensions_def emptyBuffer_def startWorld_def CreateManager_def
        PLAY_ASSERT_def PLAY_ASSERT_MSG_def)

text \<open>
  Claim C5, amended: manager creation fails with a fatal assertion exactly when the
  display buffer pointer is null or the scale factor is not positive; otherwise it binds
  both values, marks the manager created and returns true. The buffer's dimensions play
  no part: the outcome is the same whatever the store of pixel buffers holds.
\<close>

theorem CreateManager_checks_pointer_and_scale:
  "(p = None \<or> n \<le> 0 \<longrightarrow> (\<exists>m. CreateManager p n w = Inl (AssertFail m))) \<and>
   (p \<noteq> None \<and> 0 < n \<longrightarrow>
      CreateManager p n w =
        Inr (True, w\<lparr>win := (win w)\<lparr>m_pPlayBuffer := p, m_scale := n, m_bCreated := True\<rparr>\<rparr>)) \<and>
   CreateManager p n (w\<lparr>pixelData := store\<rparr>) =
     map_sum id (\<lambda>(r, w'). (r, w'\<lparr>pixelData := store\<rparr>)) (CreateManager p n w)"
  by (auto simp add: CreateManager_def PLAY_ASSERT_def PLAY_ASSERT_MSG_def)

theorem CreateManager_checks_pointer_and_scale_witness:
  "(\<exists>m. CreateManager None 2 startWorld = Inl (AssertFail m)) \<and>
   (\<exists>m. CreateManager (Some 1) 0 startWorld = Inl (AssertFail m)) \<and>
   CreateManager (Some 1) 2 startWorld =
     Inr (True, startWorld\<lparr>win := (win startWorld)\<lparr>m_pPlayBuffer := Some 1, m_scale := 2,
                                                    m_bCreated := True\<rparr>\<rparr>)"
  using CreateManager_checks_pointer_and_scale [of None 2 startWorld]
        CreateManager_checks_pointer_and_scale [of "Some 1" 0 startWorld]
        CreateManager_checks_pointer_and_scale [of "Some 1" 2 startWorld]
  by simp

subsection \<open>Operations before creation\<close>

text \<open>
  Claim C6: each operation of the window manager other than \<^verbatim>\<open>CreateManager\<close>
  (\<^verbatim>\<open>Present\<close>, \<^verbatim>\<open>HandleWindows\<close>, \<^verbatim>\<open>DestroyManager\<close>, \<^verbatim>\<open>RegisterMouse\<close>,
  \<^verbatim>\<open>GetWidth\<close>, \<^verbatim>\<open>GetHeight\<close>, \<^verbatim>\<open>GetScale\<close>, \<^verbatim>\<open>WndProc\<close>), invoked before the
  manager is created, ends in the failed assertion of \<^verbatim>\<open>ASSERT_WINDOW\<close>: it returns no
  value, changes nothing and calls nothing.
\<close>

theorem operations_before_creation_assert:
  assumes "\<not> m_bCreated (win w)"
  shows "Present before after freq w = Inl (AssertFail window_not_initialised) \<and>
     HandleWindows c cb os w = (Failed (AssertFail window_not_initialised), []) \<and>
     DestroyManager w = Inl (AssertFail window_not_initialised) \<and>
     RegisterMouse p w = Inl (AssertFail window_not_initialised) \<and>
     GetWidth w = Inl (AssertFail window_not_initialised) \<and>
     GetHeight w = Inl (AssertFail window_not_initialised) \<and>
     GetScale w = Inl (AssertFail window_not_initialised) \<and>
     WndProc h m wp lp w = Inl (AssertFail window_not_initialised)"
  using assert_window_fails [OF assms]
  by (simp add: Present_def HandleWindows_def DestroyManager_def RegisterMouse_def
        GetWidth_def GetHeight_def GetScale_def WndProc_def)

theorem operations_before_creation_assert_witness:
  "\<not> m_bCreated (win startWorld) \<and>
     Present 0 1 1000 startWorld = Inl (AssertFail window_not_initialised) \<and>
     HandleWindows release50 idleGame exampleOS startWorld
       = (Failed (AssertFail window_not_initialised), []) \<and>
     DestroyManager startWorld = Inl (AssertFail window_not_initialised) \<and>
     RegisterMouse (Some 2) startWorld = Inl (AssertFail window_not_initialised) \<and>
     GetWidth startWorld = Inl (AssertFail window_not_initialised) \<and>
     GetHeight startWorld = Inl (AssertFail window_not_initialised) \<and>
     GetScale startWorld = Inl (AssertFail window_not_initialised) \<and>
     WndProc (Some 5) WM_MOUSEMOVE 0 0 startWorld = Inl (AssertFail window_not_initialised)"
proof -
  have h: "\<not> m_bCreated (win startWorld)" by (simp add: startWorld_def)
  show ?thesis
    using h operations_before_creation_assert [OF h, of 0 1 1000 release50 idleGame exampleOS
                "Some 2" "Some 5" WM_MOUSEMOVE 0 0]
    by simp
qed

subsection \<open>Image loading\<close>

text \<open>
  Claim C7, as stated, has \<^verbatim>\<open>LoadPNGImage\<close> return 1 on every successful decode. The
  codec's dimensions are unsigned and the code stores them in \<^verbatim>\<open>int\<close> fields and
  allocates their product unchecked: for a decoded image of width \<open>2\<^sup>3\<^sup>2 - 1\<close> and height
  1 the length of the array is \<open>-1\<close> and \<^verbatim>\<open>new\<close> throws.
\<close>

theorem LoadPNGImage_decoded_but_throws:
  "GetLastStatus (exampleCodec ''wide.png'') = Ok \<and>
   sint (GetWidth_bm (exampleCodec ''wide.png'')) * sint (GetHeight_bm (exampleCodec ''wide.png''))
     = - 1 \<and>
   LoadPNGImage exampleCodec plentyOfMemory ''wide.png'' emptyBuffer = Inl BadArrayNewLength"
  by (simp add: exampleCodec_def LoadPNGImage_def Let_def checkedInt_def inInt_def)

text \<open>
  Claim C7, amended: when the file cannot be decoded \<^verbatim>\<open>LoadPNGImage\<close> returns the negated
  status of the codec, a negative number, and the destination image is the one the
  caller passed. When the file is decoded it returns 1, the destination holding the
  dimensions and the pixels of the bitmap, exactly if the product of the dimensions as
  \<^verbatim>\<open>int\<close> values is a non-negative \<^verbatim>\<open>int\<close>, the pixel array can be allocated, and the
  bitmap can be locked or has no pixel; otherwise it returns nothing and fails.
\<close>

theorem LoadPNGImage_result:
  "(GetLastStatus (FromFile path) \<noteq> Ok \<longrightarrow>
      LoadPNGImage FromFile canAllocate path dest
        = Inr (- statusCode (GetLastStatus (FromFile path)), dest) \<and>
      - statusCode (GetLastStatus (FromFile path)) < 0) \<and>
   (GetLastStatus (FromFile path) = Ok \<and>
    inInt (sint (GetWidth_bm (FromFile path)) * sint (GetHeight_bm (FromFile path))) \<and>
    0 \<le> sint (GetWidth_bm (FromFile path)) * sint (GetHeight_bm (FromFile path)) \<and>
    canAllocate (nat (sint (GetWidth_bm (FromFile path)) * sint (GetHeight_bm (FromFile path)))) \<and>
    (sint (GetWidth_bm (FromFile path)) * sint (GetHeight_bm (FromFile path)) = 0 \<or>
     LockBits (FromFile path) = Ok) \<longrightarrow>
      LoadPNGImage FromFile canAllocate path dest =
        Inr (1, dest\<lparr>width := sint (GetWidth_bm (FromFile path)),
                      height := sint (GetHeight_bm (FromFile path)),
                      pPixels := Some (map (Scan0 (FromFile path))
                                   [0..<nat (sint (GetWidth_bm (FromFile path))
                                             * sint (GetHeight_bm (FromFile path)))])\<rparr>)) \<and>
   (GetLastStatus (FromFile path) = Ok \<and>
    \<not> (inInt (sint (GetWidth_bm (FromFile path)) * sint (GetHeight_bm (FromFile path))) \<and>
       0 \<le> sint (GetWidth_bm (FromFile path)) * sint (GetHeight_bm (FromFile path)) \<and>
       canAllocate (nat (sint (GetWidth_bm (FromFile path)) * sint (GetHeight_bm (FromFile path)))) \<and>
       (sint (GetWidth_bm (FromFile path)) * sint (GetHeight_bm (FromFile path)) = 0 \<or>
        LockBits (FromFile path) = Ok)) \<longrightarrow>
      (\<exists>e. LoadPNGImage FromFile canAllocate path dest = Inl e))"
proof -
  define bm where "bm = FromFile path"
  define n where "n = sint (GetWidth_bm bm) * sint (GetHeight_bm bm)"
  have failed: "LoadPNGImage FromFile canAllocate path dest
                  = Inr (- statusCode (GetLastStatus bm), dest) \<and>
                - statusCode (GetLastStatus bm) < 0"
    if "GetLastStatus bm \<noteq> Ok"
    using that by (cases "GetLastStatus bm") (simp_all add: LoadPNGImage_def Let_def bm_def)
  have decoded: "LoadPNGImage FromFile canAllocate path dest =
        Inr (1, dest\<lparr>width := sint (GetWidth_bm bm), height := sint (GetHeight_bm bm),
                      pPixels := Some (map (Scan0 bm) [0..<nat n])\<rparr>)"
    if "GetLastStatus bm = Ok" "inInt n" "0 \<le> n" "canAllocate (nat n)" "n = 0 \<or> LockBits bm = Ok"
  proof -
    have "\<not> (0 < n \<and> LockBits bm \<noteq> Ok)" using that(3,5) by auto
    then show ?thesis
      using that(1-4) unfolding LoadPNGImage_def Let_def bm_def [symmetric]
      by (simp add: checkedInt_def n_def [symmetric] copyPixels_eq)
  qed
  have thrown: "\<exists>e. LoadPNGImage FromFile canAllocate path dest = Inl e"
    if "GetLastStatus bm = Ok"
       "\<not> (inInt n \<and> 0 \<le> n \<and> canAllocate (nat n) \<and> (n = 0 \<or> LockBits bm = Ok))"
  proof -
    have "0 < n \<or> n = 0 \<or> n < 0" by linarith
    then show ?thesis
      using that unfolding LoadPNGImage_def Let_def bm_def [symmetric]
      by (auto simp add: checkedInt_def n_def [symmetric])
  qed
  show ?thesis
    using failed decoded thrown unfolding bm_def n_def by blast
qed

theorem LoadPNGImage_result_witness:
  "GetLastStatus (exampleCodec ''missing.png'') \<noteq> Ok \<and>
   LoadPNGImage exampleCodec plentyOfMemory ''missing.png'' emptyBuffer = Inr (- 10, emptyBuffer) \<and>
   (GetLastStatus (exampleCodec ''bat_4.png'') = Ok \<and>
    inInt (sint (GetWidth_bm (exampleCodec ''bat_4.png''))
           * sint (GetHeight_bm (exampleCodec ''bat_4.png''))) \<and>
    0 \<le> sint (GetWidth_bm (exampleCodec ''bat_4.png''))
        * sint (GetHeight_bm (exampleCodec ''bat_4.png'')) \<and>
    plentyOfMemory (nat (sint (GetWidth_bm (exampleCodec ''bat_4.png''))
                         * sint (GetHeight_bm (exampleCodec ''bat_4.png'')))) \<and>
    LockBits (exampleCodec ''bat_4.png'') = Ok) \<and>
   LoadPNGImage exampleCodec plentyOfMemory ''bat_4.png'' emptyBuffer =
     Inr (1, \<lparr>width = 2, height = 1, pPixels = Some [0xFFFF0000, 0xFF00FF00]\<rparr>) \<and>
   (GetLastStatus (exampleCodec ''wide.png'') = Ok \<and>
    \<not> 0 \<le> sint (GetWidth_bm (exampleCodec ''wide.png''))
          * sint (GetHeight_bm (exampleCodec ''wide.png''))) \<and>
   (\<exists>e. LoadPNGImage exampleCodec plentyOfMemory ''wide.png'' emptyBuffer = Inl e)"
proof -
  have u: "[0..<2] = [0, Suc 0]" by (simp add: upt_conv_Cons)
  have m: "GetLastStatus (exampleCodec ''missing.png'') \<noteq> Ok"
    by (simp add: exampleCodec_def)
  have b: "GetLastStatus (exampleCodec ''bat_4.png'') = Ok \<and>
    inInt (sint (GetWidth_bm (exampleCodec ''bat_4.png''))
           * sint (GetHeight_bm (exampleCodec ''bat_4.png''))) \<and>
    0 \<le> sint (GetWidth_bm (exampleCodec ''bat_4.png''))
        * sint (GetHeight_bm (exampleCodec ''bat_4.png'')) \<and>
    plentyOfMemory (nat (sint (GetWidth_bm (exampleCodec ''bat_4.png''))
                         * sint (GetHeight_bm (exampleCodec ''bat_4.png'')))) \<and>
    LockBits (exampleCodec ''bat_4.png'') = Ok"
    by (simp add: exampleCodec_def inInt_def plentyOfMemory_def)
  have w: "GetLastStatus (exampleCodec ''wide.png'') = Ok \<and>
    \<not> 0 \<le> sint (GetWidth_bm (exampleCodec ''wide.png''))
          * sint (GetHeight_bm (exampleCodec ''wide.png''))"
    by (simp add: exampleCodec_def)
  have r1: "LoadPNGImage exampleCodec plentyOfMemory ''missing.png'' emptyBuffer
              = Inr (- 10, emptyBuffer)"
    using LoadPNGImage_result [of exampleCodec "''missing.png''" plentyOfMemory emptyBuffer] m
    by (simp add: exampleCodec_def)
  have r2: "LoadPNGImage exampleCodec plentyOfMemory ''bat_4.png'' emptyBuffer =
     Inr (1, \<lparr>width = 2, height = 1, pPixels = Some [0xFFFF0000, 0xFF00FF00]\<rparr>)"
    using LoadPNGImage_result [of exampleCodec "''bat_4.png''" plentyOfMemory emptyBuffer] b
    by (simp add: exampleCodec_def emptyBuffer_def u)
  have r3: "\<exists>e. LoadPNGImage exampleCodec plentyOfMemory ''wide.png'' emptyBuffer = Inl e"
    using LoadPNGImage_result [of exampleCodec "''wide.png''" plentyOfMemory emptyBuffer] w
    by blast
  show ?thesis by (intro conjI m r1 b r2 w r3)
qed

subsection \<open>Mouse position\<close>

text \<open>
  Claim C8, as stated, has \<open>y\<close> equal to the buffer height minus the quotient for every
  mouse-move message. The code converts the \<^verbatim>\<open>int\<close> height to \<^verbatim>\<open>float\<close> before it
  subtracts: for a buffer of height \<open>2\<^sup>2\<^sup>4 + 1\<close> and a message at \<open>(0, 0)\<close> the reported
  \<open>y\<close> is 16777216, not 16777217.
\<close>

theorem mouse_move_tall_buffer_rounds:
  "m_bCreated (win tallWorld) \<and> m_pMouseData (win tallWorld) = Some 2 \<and>
   mouseData tallWorld 2 = Some exampleMouse \<and> m_pPlayBuffer (win tallWorld) = Some 1 \<and>
   pixelData tallWorld 1 = Some tallBuffer \<and> m_scale (win tallWorld) = 1 \<and>
   GET_X_LPARAM 0 = 0 \<and> GET_Y_LPARAM 0 = 0 \<and> height tallBuffer = 16777217 \<and>
   WndProc (Some 5) WM_MOUSEMOVE 0 0 tallWorld =
     Inr (Zero, tallWorld\<lparr>mouseData :=
                  (mouseData tallWorld)(2 \<mapsto> exampleMouse\<lparr>pos_x := 0, pos_y := 16777216\<rparr>)\<rparr>) \<and>
   (16777216 :: real)
     \<noteq> real_of_int (height tallBuffer)
         - real_of_int (GET_Y_LPARAM 0 sdiv m_scale (win tallWorld))"
proof -
  have h: "m_bCreated (win tallWorld)" "m_pMouseData (win tallWorld) = Some 2"
    "mouseData tallWorld 2 = Some exampleMouse" "m_pPlayBuffer (win tallWorld) = Some 1"
    "pixelData tallWorld 1 = Some tallBuffer" "m_scale (win tallWorld) = 1"
    "height tallBuffer = 16777217"
    by (simp_all add: tallWorld_def startWorld_def tallBuffer_def)
  have x: "GET_X_LPARAM 0 = 0" and y: "GET_Y_LPARAM 0 = 0"
    by (simp_all add: GET_X_LPARAM_def GET_Y_LPARAM_def)
  have f: "toFloat 16777217 = 16777216" by (simp add: float_eval)
  have g: "toFloat 16777216 = 16777216" using toFloat_of_int [of 16777216] by simp
  have m: "mouseMove 0 tallWorld =
             Inr (tallWorld\<lparr>mouseData :=
                    (mouseData tallWorld)(2 \<mapsto> exampleMouse\<lparr>pos_x := 0, pos_y := 16777216\<rparr>)\<rparr>)"
    using mouseMove_registered [of tallWorld 2 exampleMouse 1 tallBuffer 0] h x y f g by simp
  have r: "WndProc (Some 5) WM_MOUSEMOVE 0 0 tallWorld =
     Inr (Zero, tallWorld\<lparr>mouseData :=
                  (mouseData tallWorld)(2 \<mapsto> exampleMouse\<lparr>pos_x := 0, pos_y := 16777216\<rparr>)\<rparr>)"
    using m h(2) assert_window_passes [OF h(1)]
    by (simp add: WndProc_def WM_defs withZero_def)
  have d: "(16777216 :: real)
     \<noteq> real_of_int (height tallBuffer)
         - real_of_int (GET_Y_LPARAM 0 sdiv m_scale (win tallWorld))"
    using h y by simp
  show ?thesis by (intro conjI h x y r d)
qed

text \<open>
  Claim C8, amended: a mouse-move message at window coordinates \<open>(wx, wy)\<close>, handled
  with mouse data registered, sets the reported position to \<open>x = wx / m_scale\<close> and to
  \<open>y = float(height) - wy / m_scale\<close> computed in \<^verbatim>\<open>float\<close>, where \<open>height\<close> is the
  height of the display buffer and \<open>/\<close> is the integer division of C++ (\<open>sdiv\<close>);
  nothing else changes. The \<open>y\<close> is exactly \<open>height - wy / m_scale\<close> whenever
  \<open>\<bar>height\<bar> \<le> 2\<^sup>2\<^sup>4 - 2\<^sup>1\<^sup>5\<close>. The manager is created, its pointers refer to live objects
  and the scale is not zero, as it is after any successful \<^verbatim>\<open>CreateManager\<close>.
\<close>

theorem mouse_move_position:
  assumes "m_bCreated (win w)"
      and "m_pMouseData (win w) = Some a" and "mouseData w a = Some md"
      and "m_pPlayBuffer (win w) = Some b" and "pixelData w b = Some pb"
      and "m_scale (win w) \<noteq> 0"
      and "GET_X_LPARAM lp = wx" and "GET_Y_LPARAM lp = wy"
  shows "WndProc h WM_MOUSEMOVE wp lp w =
           Inr (Zero, w\<lparr>mouseData := (mouseData w)(a \<mapsto>
                  md\<lparr>pos_x := real_of_int (wx sdiv m_scale (win w)),
                     pos_y := toFloat (toFloat (real_of_int (height pb))
                                - real_of_int (wy sdiv m_scale (win w)))\<rparr>)\<rparr>) \<and>
         (\<bar>height pb\<bar> \<le> 16744448 \<longrightarrow>
            toFloat (toFloat (real_of_int (height pb)) - real_of_int (wy sdiv m_scale (win w)))
              = real_of_int (height pb) - real_of_int (wy sdiv m_scale (win w)))"
proof
  have qx: "toFloat (of_int (wx sdiv m_scale (win w))) = of_int (wx sdiv m_scale (win w))"
    using GET_LPARAM_range(1,2) [of lp] assms(7) by (intro toFloat_quotient) simp_all
  have qy: "toFloat (of_int (wy sdiv m_scale (win w))) = of_int (wy sdiv m_scale (win w))"
    using GET_LPARAM_range(3,4) [of lp] assms(8) by (intro toFloat_quotient) simp_all
  show "WndProc h WM_MOUSEMOVE wp lp w =
           Inr (Zero, w\<lparr>mouseData := (mouseData w)(a \<mapsto>
                  md\<lparr>pos_x := real_of_int (wx sdiv m_scale (win w)),
                     pos_y := toFloat (toFloat (real_of_int (height pb))
                                - real_of_int (wy sdiv m_scale (win w)))\<rparr>)\<rparr>)"
    using assms(2,7,8) mouseMove_registered [OF assms(2-6), of lp]
      assert_window_passes [OF assms(1)] qx qy
    by (simp add: WndProc_def WM_defs withZero_def)
  show "\<bar>height pb\<bar> \<le> 16744448 \<longrightarrow>
            toFloat (toFloat (real_of_int (height pb)) - real_of_int (wy sdiv m_scale (win w)))
              = real_of_int (height pb) - real_of_int (wy sdiv m_scale (win w))"
  proof
    assume hb: "\<bar>height pb\<bar> \<le> 16744448"
    have "\<bar>wy sdiv m_scale (win w)\<bar> \<le> \<bar>wy\<bar>" by (rule sdiv_abs_le)
    then have q: "\<bar>wy sdiv m_scale (win w)\<bar> \<le> 32768"
      using GET_LPARAM_range(3,4) [of lp] assms(8) by linarith
    have 1: "toFloat (of_int (height pb)) = of_int (height pb)"
      using hb by (intro toFloat_of_int) simp
    have "\<bar>height pb - wy sdiv m_scale (win w)\<bar> \<le> 16777216" using hb q by linarith
    from toFloat_of_int [OF this] 1
    show "toFloat (toFloat (real_of_int (height pb)) - real_of_int (wy sdiv m_scale (win w)))
              = real_of_int (height pb) - real_of_int (wy sdiv m_scale (win w))"
      by simp
  qed
qed

theorem mouse_move_position_witness:
  "m_bCreated (win readyWorld) \<and> m_pMouseData (win readyWorld) = Some 2 \<and>
   mouseData readyWorld 2 = Some exampleMouse \<and> m_pPlayBuffer (win readyWorld) = Some 1 \<and>
   pixelData readyWorld 1 = Some exampleBuffer \<and> m_scale (win readyWorld) = 2 \<and>
   GET_X_LPARAM 0x00050007 = 7 \<and> GET_Y_LPARAM 0x00050007 = 5 \<and>
   \<bar>height exampleBuffer\<bar> \<le> 16744448 \<and>
   WndProc (Some 5) WM_MOUSEMOVE 0 0x00050007 readyWorld =
     Inr (Zero, readyWorld\<lparr>mouseData :=
                  (mouseData readyWorld)(2 \<mapsto> exampleMouse\<lparr>pos_x := 3, pos_y := 1\<rparr>)\<rparr>)"
proof -
  have h: "m_bCreated (win readyWorld)" "m_pMouseData (win readyWorld) = Some 2"
    "mouseData readyWorld 2 = Some exampleMouse" "m_pPlayBuffer (win readyWorld) = Some 1"
    "pixelData readyWorld 1 = Some exampleBuffer" "m_scale (win readyWorld) \<noteq> 0"
    by (simp_all add: readyWorld_def startWorld_def exampleBuffer_def)
  have s: "m_scale (win readyWorld) = 2" and e: "height exampleBuffer = 3"
    by (simp_all add: readyWorld_def startWorld_def exampleBuffer_def)
  have x: "GET_X_LPARAM 0x00050007 = 7" and y: "GET_Y_LPARAM 0x00050007 = 5"
    by (simp_all add: GET_X_LPARAM_def GET_Y_LPARAM_def)
  have d: "(7::int) sdiv 2 = 3" "(5::int) sdiv 2 = 2"
    by (simp_all add: signed_divide_int_def)
  have b: "\<bar>height exampleBuffer\<bar> \<le> 16744448" using e by simp
  note t = mouse_move_position [OF h x y, of "Some 5" 0]
  have r: "WndProc (Some 5) WM_MOUSEMOVE 0 0x00050007 readyWorld =
     Inr (Zero, readyWorld\<lparr>mouseData :=
                  (mouseData readyWorld)(2 \<mapsto> exampleMouse\<lparr>pos_x := 3, pos_y := 1\<rparr>)\<rparr>)"
    using t [THEN conjunct1] t [THEN conjunct2, THEN mp, OF b] s e d by simp
  show ?thesis by (intro conjI h(1-5) s x y b r)
qed

text \<open>
  Claim C10: a mouse-leave message handled with mouse data registered sets the reported
  position to \<open>(-1, -1)\<close>, and no mouse-move message at a position inside the window
  produces that position: there \<open>x\<close> is at least 0 and \<open>y\<close> at least 1.
\<close>

theorem mouse_leave_sentinel:
  assumes "m_bCreated (win w)"
      and "m_pMouseData (win w) = Some a" and "mouseData w a = Some md"
  shows "WndProc h WM_MOUSELEAVE wp lp w =
           Inr (Zero, w\<lparr>mouseData := (mouseData w)(a \<mapsto> md\<lparr>pos_x := - 1, pos_y := - 1\<rparr>)\<rparr>) \<and>
         (\<forall>b pb lp'. m_pPlayBuffer (win w) = Some b \<and> pixelData w b = Some pb \<and>
             0 < m_scale (win w) \<and> inWindow w pb lp' \<longrightarrow>
             (\<exists>md'. WndProc h WM_MOUSEMOVE wp lp' w =
                       Inr (Zero, w\<lparr>mouseData := (mouseData w)(a \<mapsto> md')\<rparr>) \<and>
                    0 \<le> pos_x md' \<and> 1 \<le> pos_y md' \<and>
                    (pos_x md', pos_y md') \<noteq> (- 1, - 1)))"
proof (intro conjI allI impI)
  show "WndProc h WM_MOUSELEAVE wp lp w =
           Inr (Zero, w\<lparr>mouseData := (mouseData w)(a \<mapsto> md\<lparr>pos_x := - 1, pos_y := - 1\<rparr>)\<rparr>)"
    using mouseLeave_registered [OF assms(2,3)] assert_window_passes [OF assms(1)]
    by (simp add: WndProc_def WM_defs withZero_def)
next
  fix b pb lp'
  assume a: "m_pPlayBuffer (win w) = Some b \<and> pixelData w b = Some pb \<and>
             0 < m_scale (win w) \<and> inWindow w pb lp'"
  define s where "s = m_scale (win w)"
  define qx where "qx = GET_X_LPARAM lp' sdiv s"
  define qy where "qy = GET_Y_LPARAM lp' sdiv s"
  define md' where "md' = md\<lparr>pos_x := toFloat (of_int qx),
                     pos_y := toFloat (toFloat (of_int (height pb)) - toFloat (of_int qy))\<rparr>"
  have s: "0 < s" "s \<noteq> 0" using a by (simp_all add: s_def)
  have i: "0 \<le> GET_X_LPARAM lp'" "0 \<le> GET_Y_LPARAM lp'" "GET_Y_LPARAM lp' < height pb * s"
    using a by (simp_all add: inWindow_def s_def)
  have x: "0 \<le> qx"
    using i(1) s(1) by (simp add: qx_def sdiv_nonneg pos_imp_zdiv_nonneg_iff)
  have y: "qy < height pb"
    using i(2,3) s(1) by (simp add: qy_def sdiv_nonneg div_below)
  have m: "mouseMove lp' w = Inr (w\<lparr>mouseData := (mouseData w)(a \<mapsto> md')\<rparr>)"
    using mouseMove_registered [OF assms(2,3), of b pb lp'] a s(2)
    by (simp add: md'_def s_def qx_def qy_def)
  have r: "WndProc h WM_MOUSEMOVE wp lp' w
             = Inr (Zero, w\<lparr>mouseData := (mouseData w)(a \<mapsto> md')\<rparr>)"
    using m assms(2) assert_window_passes [OF assms(1)]
    by (simp add: WndProc_def WM_defs withZero_def)
  have px: "0 \<le> pos_x md'" using x by (simp add: md'_def toFloat_nonneg)
  have py: "1 \<le> pos_y md'"
  proof -
    have qf: "toFloat (of_int qy) = of_int qy"
      unfolding qy_def using GET_LPARAM_range(3,4) [of lp'] by (intro toFloat_quotient) simp_all
    have q1: "\<bar>qy + 1\<bar> \<le> 16777216"
      using sdiv_abs_le [of "GET_Y_LPARAM lp'" s] GET_LPARAM_range(3,4) [of lp']
      unfolding qy_def by linarith
    have "real_of_int (qy + 1) \<le> real_of_int (height pb)" using y by simp
    from toFloat_mono [OF this] have "real_of_int (qy + 1) \<le> toFloat (of_int (height pb))"
      using toFloat_of_int [OF q1] by simp
    then have "1 \<le> toFloat (of_int (height pb)) - toFloat (of_int qy)" using qf by simp
    from toFloat_mono [OF this] have "toFloat 1 \<le> pos_y md'" by (simp add: md'_def)
    moreover have "toFloat 1 = 1" using toFloat_of_int [of 1] by simp
    ultimately show ?thesis by simp
  qed
  show "\<exists>md'. WndProc h WM_MOUSEMOVE wp lp' w =
                       Inr (Zero, w\<lparr>mouseData := (mouseData w)(a \<mapsto> md')\<rparr>) \<and>
                    0 \<le> pos_x md' \<and> 1 \<le> pos_y md' \<and>
                    (pos_x md', pos_y md') \<noteq> (- 1, - 1)"
    using r px py by (intro exI [of _ md']) auto
qed

theorem mouse_leave_sentinel_witness:
  "m_bCreated (win readyWorld) \<and> m_pMouseData (win readyWorld) = Some 2 \<and>
   mouseData readyWorld 2 = Some exampleMouse \<and>
   WndProc (Some 5) WM_MOUSELEAVE 0 0 readyWorld =
     Inr (Zero, readyWorld\<lparr>mouseData :=
                  (mouseData readyWorld)(2 \<mapsto> exampleMouse\<lparr>pos_x := - 1, pos_y := - 1\<rparr>)\<rparr>) \<and>
   (m_pPlayBuffer (win readyWorld) = Some 1 \<and> pixelData readyWorld 1 = Some exampleBuffer \<and>
    0 < m_scale (win readyWorld) \<and> inWindow readyWorld exampleBuffer 0x00050007) \<and>
   (\<exists>md'. WndProc (Some 5) WM_MOUSEMOVE 0 0x00050007 readyWorld =
             Inr (Zero, readyWorld\<lparr>mouseData := (mouseData readyWorld)(2 \<mapsto> md')\<rparr>) \<and>
           0 \<le> pos_x md' \<and> 1 \<le> pos_y md' \<and> (pos_x md', pos_y md') \<noteq> (- 1, - 1))"
proof -
  have h: "m_bCreated (win readyWorld)" "m_pMouseData (win readyWorld) = Some 2"
    "mouseData readyWorld 2 = Some exampleMouse"
    by (simp_all add: readyWorld_def startWorld_def)
  have g: "m_pPlayBuffer (win readyWorld) = Some 1 \<and> pixelData readyWorld 1 = Some exampleBuffer \<and>
           0 < m_scale (win readyWorld) \<and> inWindow readyWorld exampleBuffer 0x00050007"
    by (simp add: readyWorld_def startWorld_def exampleBuffer_def inWindow_def
          GET_X_LPARAM_def GET_Y_LPARAM_def)
  note t = mouse_leave_sentinel [OF h, of "Some 5" 0 0]
  note l = t [THEN conjunct1]
  note m = t [THEN conjunct2, THEN spec, THEN spec, THEN spec, THEN mp, OF g]
  show ?thesis
    by (intro conjI h l g m)
qed

subsection \<open>Draw\<close>

text \<open>
  Claim C9: for every sprite id, position and frame index, \<^verbatim>\<open>Draw\<close> has the effect of
  \<^verbatim>\<open>DrawTransparent\<close> called with the colour multiply \<open>(1, 1, 1, 1)\<close>, in every blend
  mode. In the normal blend mode that call takes the fast path, so the plain draw and
  the transparent draw with the white multiply both are the non-blending direct copy of
  the frame; in the other blend modes both are the composite with the white multiply.
\<close>

theorem Draw_is_DrawTransparent_white:
  "Draw b spriteId pos frameIndex g = DrawTransparent b spriteId pos frameIndex (1, 1, 1, 1) g \<and>
   (blendMode g = BLEND_NORMAL \<longrightarrow>
      DrawTransparent b spriteId pos frameIndex (1, 1, 1, 1) g
        = g\<lparr>canvas := directCopy b spriteId pos frameIndex (canvas g)\<rparr> \<and>
      Draw b spriteId pos frameIndex g
        = g\<lparr>canvas := directCopy b spriteId pos frameIndex (canvas g)\<rparr>) \<and>
   (blendMode g \<noteq> BLEND_NORMAL \<longrightarrow>
      Draw b spriteId pos frameIndex g
        = g\<lparr>canvas := composite b (blendMode g) (1, 1, 1, 1) spriteId pos frameIndex (canvas g)\<rparr>)"
  by (simp add: Draw_def DrawTransparent_def defaultGlobalMultiply_def)

theorem Draw_is_DrawTransparent_white_witness:
  "blendMode normalGraphics = BLEND_NORMAL \<and>
   Draw exampleBlitters 0 (0, 0) 0 normalGraphics
     = DrawTransparent exampleBlitters 0 (0, 0) 0 (1, 1, 1, 1) normalGraphics \<and>
   Draw exampleBlitters 0 (0, 0) 0 normalGraphics = normalGraphics\<lparr>canvas := 0xFFFFFFFF\<rparr> \<and>
   blendMode (normalGraphics\<lparr>blendMode := BLEND_ADD\<rparr>) \<noteq> BLEND_NORMAL \<and>
   Draw exampleBlitters 0 (0, 0) 0 (normalGraphics\<lparr>blendMode := BLEND_ADD\<rparr>)
     = normalGraphics\<lparr>blendMode := BLEND_ADD, canvas := 0x80808080\<rparr>"
proof -
  have n: "blendMode normalGraphics = BLEND_NORMAL" by (simp add: normalGraphics_def)
  have a: "blendMode (normalGraphics\<lparr>blendMode := BLEND_ADD\<rparr>) \<noteq> BLEND_NORMAL" by simp
  note t1 = Draw_is_DrawTransparent_white [of exampleBlitters 0 "(0, 0)" 0 normalGraphics]
  note t2 = Draw_is_DrawTransparent_white [of exampleBlitters 0 "(0, 0)" 0
              "normalGraphics\<lparr>blendMode := BLEND_ADD\<rparr>"]
  have r1: "Draw exampleBlitters 0 (0, 0) 0 normalGraphics = normalGraphics\<lparr>canvas := 0xFFFFFFFF\<rparr>"
    using t1 [THEN conjunct2, THEN conjunct1, THEN mp, OF n, THEN conjunct2]
    by (simp add: exampleBlitters_def)
  have r2: "Draw exampleBlitters 0 (0, 0) 0 (normalGraphics\<lparr>blendMode := BLEND_ADD\<rparr>)
     = normalGraphics\<lparr>blendMode := BLEND_ADD, canvas := 0x80808080\<rparr>"
    using t2 [THEN conjunct2, THEN conjunct2, THEN mp, OF a]
    by (simp add: exampleBlitters_def)
  show ?thesis by (intro conjI n t1 [THEN conjunct1] r1 a r2)
qed

subsection \<open>The window procedure keeps the rest of the world\<close>

lemma writeMouse_keeps:
  "writeMouse f w = Inr w' \<Longrightarrow>
     win w' = win w \<and> msgQueue w' = msgQueue w \<and> pixelData w' = pixelData w \<and>
     quitPosted w' = quitPosted w \<and> game w' = game w"
  by (auto simp add: writeMouse_def split: option.splits)

lemma writeMouseIfRegistered_keeps:
  "writeMouseIfRegistered f w = Inr w' \<Longrightarrow>
     win w' = win w \<and> msgQueue w' = msgQueue w \<and> pixelData w' = pixelData w \<and>
     game w' = game w"
  by (auto simp add: writeMouseIfRegistered_def dest: writeMouse_keeps split: if_splits)

lemma mouseMove_keeps:
  "mouseMove lp w = Inr w' \<Longrightarrow>
     win w' = win w \<and> msgQueue w' = msgQueue w \<and> pixelData w' = pixelData w \<and>
     game w' = game w"
  by (auto simp add: mouseMove_def dest!: writeMouse_keeps split: if_splits sum.splits)

lemma mouseLeave_keeps:
  "mouseLeave w = Inr w' \<Longrightarrow>
     win w' = win w \<and> msgQueue w' = msgQueue w \<and> pixelData w' = pixelData w \<and>
     game w' = game w"
  by (auto simp add: mouseLeave_def dest!: writeMouse_keeps split: sum.splits)

lemma withZero_Inr: "withZero r = Inr (z, w') \<Longrightarrow> r = Inr w'"
  by (auto simp add: withZero_def split: sum.splits)

lemma WndProc_keeps:
  "WndProc h m wp lp w = Inr (r, w') \<Longrightarrow>
     win w' = win w \<and> msgQueue w' = msgQueue w \<and> game w' = game w"
  by (auto simp add: WndProc_def split: sum.splits if_splits
        dest!: withZero_Inr dest: writeMouseIfRegistered_keeps mouseMove_keeps mouseLeave_keeps)

lemma DispatchMessage_keeps:
  "DispatchMessage m w = Inr w' \<Longrightarrow>
     win w' = win w \<and> msgQueue w' = msgQueue w \<and> game w' = game w"
  by (auto simp add: DispatchMessage_def split: if_splits sum.splits dest: WndProc_keeps)

lemma PeekMessage_queue:
  "PeekMessage w = (r, w') \<Longrightarrow>
     win w' = win w \<and> msgQueue w' = drop 1 (msgQueue w) \<and> game w' = game w"
  by (auto simp add: PeekMessage_def split: list.splits option.splits)

subsection \<open>handleMessages\<close>

lemma handleMessages_Next:
  assumes "handleMessages e ls = (IterNext ls1, tr)"
  shows "lastDrawTime ls1 = lastDrawTime ls \<and> quit ls1 = quit ls \<and>
         win (lworld ls1) = win (lworld ls) \<and> game (lworld ls1) = game (lworld ls) \<and>
         msgQueue (lworld ls1) = drop 1 (msgQueue (lworld ls) @ arrivals e) \<and>
         (\<forall>ev \<in> set tr. \<not> quitSignal ev)"
  using assms
  by (auto simp add: handleMessages_def split: prod.splits option.splits if_splits sum.splits
        dest!: PeekMessage_queue DispatchMessage_keeps)

lemma handleMessages_Break:
  assumes "handleMessages e ls = (IterBreak ls1, tr)"
  shows "\<exists>m. tr = [EvPeekMessage (Some m)] \<and> message m = WM_QUIT \<and>
         msgQueue (lworld ls1) = drop 1 (msgQueue (lworld ls) @ arrivals e)"
  using assms
  by (auto simp add: handleMessages_def split: prod.splits option.splits if_splits sum.splits
        dest!: PeekMessage_queue)



lemma handleMessages_trace:
  assumes "handleMessages e ls = (r, tr)"
  shows "(\<exists>m rest. tr = EvPeekMessage m # rest \<and> (\<forall>ev \<in> set rest. \<not> isPeek ev)) \<and>
         (\<forall>ev \<in> set tr. isMessageEvent ev)"
  using assms
  by (auto simp add: handleMessages_def split: prod.splits option.splits if_splits sum.splits)

subsection \<open>busyWait\<close>

lemma elapsedMilliseconds_Inr:
  "elapsedMilliseconds freq lastT t = Inr x \<longleftrightarrow>
     x = elapsedDouble freq lastT t \<and> inInt64 (t - lastT) \<and> freq \<noteq> 0"
  by (auto simp add: elapsedMilliseconds_def)

lemma busyWait_Done:
  "busyWait c freq lastT ts = (WaitDone t el, used) \<Longrightarrow>
     el = elapsedDouble freq lastT t \<and> frameInterval c \<le> el \<and> used \<noteq> [] \<and> last used = t \<and>
     (\<exists>rest. ts = used @ rest) \<and>
     (\<forall>u \<in> set (butlast used). elapsedDouble freq lastT u < frameInterval c) \<and>
     inInt64 (t - lastT) \<and> freq \<noteq> 0 \<and> FRAMES_PER_SECOND c \<noteq> 0"
proof (induction ts arbitrary: used)
  case Nil
  then show ?case by simp
next
  case (Cons a ts)
  show ?case
  proof (cases "elapsedMilliseconds freq lastT a")
    case (Inl err)
    with Cons.prems show ?thesis by simp
  next
    case (Inr x)
    note x = Inr [unfolded elapsedMilliseconds_Inr]
    show ?thesis
    proof (cases "FRAMES_PER_SECOND c = 0")
      case True
      with Cons.prems Inr show ?thesis by simp
    next
      case False
      show ?thesis
      proof (cases "x < frameInterval c")
        case True
        obtain r' used' where r: "busyWait c freq lastT ts = (r', used')"
          by (cases "busyWait c freq lastT ts")
        have e: "r' = WaitDone t el" "used = a # used'"
          using Cons.prems Inr False True r by simp_all
        from Cons.IH [OF r [unfolded e(1)]] True x e(2) show ?thesis by auto
      next
        case lt: False
        with Cons.prems Inr False x show ?thesis by auto
      qed
    qed
  qed
qed


subsection \<open>One pass of the loop body\<close>

lemma callUpdate_cases:
  assumes "callUpdate c cb f ls = (ls3, tr3)"
  obtains (called) q w' where "debug c \<or> f = m_hWindow (win (lworld ls))"
      and "MainGameUpdate cb (elapsedSeconds (elapsedTime ls)) (lworld ls) = (q, w')"
      and "ls3 = ls\<lparr>lworld := w', quit := q\<rparr>"
      and "tr3 = [EvMainGameUpdate (elapsedSeconds (elapsedTime ls)) q]"
    | (skipped) "\<not> debug c" and "f \<noteq> m_hWindow (win (lworld ls))" and "ls3 = ls" and "tr3 = []"
proof (cases "debug c \<or> f = m_hWindow (win (lworld ls))")
  case True
  obtain q w' where m: "MainGameUpdate cb (elapsedSeconds (elapsedTime ls)) (lworld ls) = (q, w')"
    by (cases "MainGameUpdate cb (elapsedSeconds (elapsedTime ls)) (lworld ls)")
  have "ls3 = ls\<lparr>lworld := w', quit := q\<rparr>"
       "tr3 = [EvMainGameUpdate (elapsedSeconds (elapsedTime ls)) q]"
    using assms True m by (auto simp add: callUpdate_def)
  then show thesis using called True m by blast
next
  case False
  then have "ls3 = ls" "tr3 = []" using assms by (auto simp add: callUpdate_def)
  then show thesis using skipped False by blast
qed

lemma iteration_cases:
  assumes "iteration c cb freq e ls = (r, tr)"
  obtains (stopped) "handleMessages e ls = (r, tr)" and "\<forall>ls1. r \<noteq> IterNext ls1"
    | (pending) ls1 tr1 used where "handleMessages e ls = (IterNext ls1, tr1)"
        and "busyWait c freq (lastDrawTime ls1) (counters e) = (WaitPending, used)"
        and "r = IterPending" and "tr = tr1 @ map EvQueryPerformanceCounter used"
    | (failed) ls1 tr1 err used where "handleMessages e ls = (IterNext ls1, tr1)"
        and "busyWait c freq (lastDrawTime ls1) (counters e) = (WaitFail err, used)"
        and "r = IterFail err" and "tr = tr1 @ map EvQueryPerformanceCounter used"
    | (completed) ls1 tr1 t el used ls3 tr3 where "handleMessages e ls = (IterNext ls1, tr1)"
        and "busyWait c freq (lastDrawTime ls1) (counters e) = (WaitDone t el, used)"
        and "callUpdate c cb (focus e) (ls1\<lparr>now := t, elapsedTime := el\<rparr>) = (ls3, tr3)"
        and "r = IterNext (ls3\<lparr>lastDrawTime := now ls3\<rparr>)"
        and "tr = tr1 @ map EvQueryPerformanceCounter used @ tr3 @ [EvDwmFlush]"
proof -
  obtain r1 tr1 where hm: "handleMessages e ls = (r1, tr1)"
    by (cases "handleMessages e ls")
  show thesis
  proof (cases r1)
    case (IterNext ls1)
    obtain wr used where bw: "busyWait c freq (lastDrawTime ls1) (counters e) = (wr, used)"
      by (cases "busyWait c freq (lastDrawTime ls1) (counters e)")
    show thesis
    proof (cases wr)
      case (WaitDone t el)
      obtain ls3 tr3 where
        cu: "callUpdate c cb (focus e) (ls1\<lparr>now := t, elapsedTime := el\<rparr>) = (ls3, tr3)"
        by (cases "callUpdate c cb (focus e) (ls1\<lparr>now := t, elapsedTime := el\<rparr>)")
      have "r = IterNext (ls3\<lparr>lastDrawTime := now ls3\<rparr>)"
           "tr = tr1 @ map EvQueryPerformanceCounter used @ tr3 @ [EvDwmFlush]"
        using assms hm IterNext bw WaitDone cu by (simp_all add: iteration_def)
      then show thesis using completed hm IterNext bw WaitDone cu by blast
    next
      case (WaitFail err)
      have "r = IterFail err" "tr = tr1 @ map EvQueryPerformanceCounter used"
        using assms hm IterNext bw WaitFail by (simp_all add: iteration_def)
      then show thesis using failed hm IterNext bw WaitFail by blast
    next
      case WaitPending
      have "r = IterPending" "tr = tr1 @ map EvQueryPerformanceCounter used"
        using assms hm IterNext bw WaitPending by (simp_all add: iteration_def)
      then show thesis using pending hm IterNext bw WaitPending by blast
    qed
  next
    case (IterBreak ls1)
    then have "handleMessages e ls = (r, tr)" "\<forall>ls1. r \<noteq> IterNext ls1"
      using assms hm by (auto simp add: iteration_def)
    then show thesis using stopped by blast
  next
    case (IterFail err)
    then have "handleMessages e ls = (r, tr)" "\<forall>ls1. r \<noteq> IterNext ls1"
      using assms hm by (auto simp add: iteration_def)
    then show thesis using stopped by blast
  next
    case IterPending
    then have "handleMessages e ls = (r, tr)" "\<forall>ls1. r \<noteq> IterNext ls1"
      using assms hm by (auto simp add: iteration_def)
    then show thesis using stopped by blast
  qed
qed

lemma message_event_not_update: "isMessageEvent ev \<Longrightarrow> \<not> isUpdate ev"
  by (cases ev) simp_all

lemma counter_event_not_update: "ev \<in> set (map EvQueryPerformanceCounter ts) \<Longrightarrow> \<not> isUpdate ev"
  by auto

lemma message_events_not_update:
  "\<forall>ev \<in> set tr. isMessageEvent ev \<Longrightarrow> EvMainGameUpdate s q \<notin> set tr"
  by auto

text \<open>
  The value the update function receives is not below the threshold of the wait taken
  through the same conversion.
\<close>

lemma elapsedSeconds_bound:
  assumes "frameInterval c \<le> el"
  shows "toFloat (frameInterval c / 1000) \<le> elapsedSeconds el"
proof -
  have "toFloat (frameInterval c) \<le> toFloat el" using assms by (rule toFloat_mono)
  then have "frameInterval c \<le> toFloat el" by (simp add: frameInterval_def)
  then have "frameInterval c / 1000 \<le> toFloat el / 1000" by simp
  then show ?thesis unfolding elapsedSeconds_def by (rule toFloat_mono)
qed

lemma iteration_update:
  assumes it: "iteration c cb freq e ls = (r, tr)"
      and up: "EvMainGameUpdate s q \<in> set tr"
  shows "\<exists>ls1 tr1 ls' t pre.
           handleMessages e ls = (IterNext ls1, tr1) \<and>
           r = IterNext ls' \<and> lastDrawTime ls' = t \<and> quit ls' = q \<and>
           tr = pre @ [EvQueryPerformanceCounter t, EvMainGameUpdate s q, EvDwmFlush] \<and>
           (\<forall>ev \<in> set pre. \<not> isUpdate ev) \<and>
           (debug c \<or> focus e = m_hWindow (win (lworld ls))) \<and>
           frameInterval c \<le> elapsedDouble freq (lastDrawTime ls) t \<and>
           s = elapsedSeconds (elapsedDouble freq (lastDrawTime ls) t) \<and>
           MainGameUpdate cb s (lworld ls1) = (q, lworld ls')"
  using it
proof (cases rule: iteration_cases)
  case stopped
  from handleMessages_trace [OF stopped(1)] up show ?thesis by auto
next
  case (pending ls1 tr1 used)
  from handleMessages_trace [OF pending(1)] up pending(4) show ?thesis by auto
next
  case (failed ls1 tr1 err used)
  from handleMessages_trace [OF failed(1)] up failed(4) show ?thesis by auto
next
  case (completed ls1 tr1 t el used ls3 tr3)
  note hm = handleMessages_Next [OF completed(1)]
  note tr1 = handleMessages_trace [OF completed(1)]
  note bw = busyWait_Done [OF completed(2)]
  have used: "used = butlast used @ [t]"
    using bw by (metis append_butlast_last_id)
  have in3: "EvMainGameUpdate s q \<in> set tr3"
    using up completed(5) tr1 by auto
  from completed(3) show ?thesis
  proof (cases rule: callUpdate_cases)
    case (called q' w')
    have sq: "s = elapsedSeconds el" "q = q'" using in3 called(4) by simp_all
    let ?pre = "tr1 @ map EvQueryPerformanceCounter (butlast used)"
    let ?ls' = "ls3\<lparr>lastDrawTime := now ls3\<rparr>"
    have "map EvQueryPerformanceCounter used
            = map EvQueryPerformanceCounter (butlast used) @ [EvQueryPerformanceCounter t]"
      by (subst used) simp
    then have a: "tr = ?pre @ [EvQueryPerformanceCounter t, EvMainGameUpdate s q, EvDwmFlush]"
      using completed(5) called(4) sq by simp
    have b: "\<forall>ev \<in> set ?pre. \<not> isUpdate ev"
      using tr1 message_event_not_update counter_event_not_update [of _ "butlast used"]
      by (metis Un_iff set_append)
    have d: "lastDrawTime ?ls' = t" "quit ?ls' = q" "lworld ?ls' = w'"
      using called(3) sq by simp_all
    have f: "debug c \<or> focus e = m_hWindow (win (lworld ls))"
      using called(1) hm by simp
    have g: "frameInterval c \<le> elapsedDouble freq (lastDrawTime ls) t"
      using bw hm by simp
    have h: "s = elapsedSeconds (elapsedDouble freq (lastDrawTime ls) t)"
      using bw hm sq by simp
    have i: "MainGameUpdate cb s (lworld ls1) = (q, lworld ?ls')"
      using called(2) sq d(3) by simp
    show ?thesis
      using completed(1) completed(4) d(1,2) a b f g h i by blast
  next
    case skipped
    with in3 show ?thesis by simp
  qed
qed


lemma quit_in_update: "ev \<in> set [EvMainGameUpdate s q] \<Longrightarrow> quitSignal ev = q"
  by simp

lemma counter_event_not_quit: "ev \<in> set (map EvQueryPerformanceCounter ts) \<Longrightarrow> \<not> quitSignal ev"
  by auto









lemma frame_loop_update:
  assumes "frame_loop c cb freq es ls = (r, trs)"
      and "EvMainGameUpdate s q \<in> set (concat trs)"
  shows "toFloat (frameInterval c / 1000) \<le> s"
  using assms
proof (induction es arbitrary: ls r trs)
  case Nil
  then show ?case by (auto split: if_splits)
next
  case (Cons e es)
  obtain r1 tr where it: "iteration c cb freq e ls = (r1, tr)"
    by (cases "iteration c cb freq e ls")
  have here: "toFloat (frameInterval c / 1000) \<le> s" if "EvMainGameUpdate s q \<in> set tr"
  proof -
    from iteration_update [OF it that] obtain t where
      "frameInterval c \<le> elapsedDouble freq (lastDrawTime ls) t"
      "s = elapsedSeconds (elapsedDouble freq (lastDrawTime ls) t)" by blast
    then show ?thesis using elapsedSeconds_bound by simp
  qed
  show ?case
  proof (cases "quit ls")
    case True
    with Cons.prems show ?thesis by simp
  next
    case False
    show ?thesis
    proof (cases r1)
      case (IterNext ls1)
      obtain r2 trs2 where fl: "frame_loop c cb freq es ls1 = (r2, trs2)"
        by (cases "frame_loop c cb freq es ls1")
      have "trs = tr # trs2" using Cons.prems(1) it IterNext fl False by auto
      with Cons.prems(2) Cons.IH [OF fl] here show ?thesis by auto
    qed (use Cons.prems it here False in auto)
  qed
qed

subsection \<open>HandleWindows around the loop\<close>

lemma afterLoop_eq:
  "afterLoop cb ls =
     (if g_pGDIToken (snd (MainGameExit cb (lworld ls))) \<noteq> 0
      then (Returned (sint (ucast (wParam (msg ls)) :: 32 word), snd (MainGameExit cb (lworld ls))),
            [EvMainGameExit, EvGdiplusShutdown])
      else (Failed (AssertFail ''g_pGDIToken''), [EvMainGameExit]))"
  by (cases "MainGameExit cb (lworld ls)")
     (simp add: afterLoop_def PLAY_ASSERT_def PLAY_ASSERT_MSG_def)

lemma HandleWindows_loop:
  assumes "m_bCreated (win w)" and "playBuffer w = Inr pb"
      and "checkedInt (width pb * m_scale (win w)) = Inr cw"
      and "checkedInt (height pb * m_scale (win w)) = Inr ch"
      and "hWndCreated os = Some h"
      and "frame_loop c cb (counterFrequency os) (frames os) (loopStart os h w) = (r, trs)"
  shows "HandleWindows c cb os w =
           (case r of
              LoopExit ls \<Rightarrow>
                (fst (afterLoop cb ls),
                 EvCreateWindow cw ch (Some h) # concat trs @ snd (afterLoop cb ls))
            | LoopFail err \<Rightarrow> (Failed err, EvCreateWindow cw ch (Some h) # concat trs)
            | LoopPending \<Rightarrow> (Running, EvCreateWindow cw ch (Some h) # concat trs))"
  using assms assert_window_passes [OF assms(1)]
  by (cases r) (simp_all add: HandleWindows_def split: prod.splits)

lemma HandleWindows_update:
  assumes "EvMainGameUpdate s q \<in> set (snd (HandleWindows c cb os w))"
  shows "\<exists>h r trs. frame_loop c cb (counterFrequency os) (frames os) (loopStart os h w) = (r, trs) \<and>
           EvMainGameUpdate s q \<in> set (concat trs)"
proof (cases "m_bCreated (win w)")
  case False
  then show ?thesis using assms assert_window_fails [OF False] by (simp add: HandleWindows_def)
next
  case True
  note aw = assert_window_passes [OF True]
  show ?thesis
  proof (cases "playBuffer w")
    case (Inl err)
    then show ?thesis using assms aw by (simp add: HandleWindows_def)
  next
    case (Inr pb)
    show ?thesis
    proof (cases "checkedInt (width pb * m_scale (win w))")
      case (Inl err)
      then show ?thesis using assms aw Inr by (simp add: HandleWindows_def)
    next
      case cw: (Inr cw)
      show ?thesis
      proof (cases "checkedInt (height pb * m_scale (win w))")
        case (Inl err)
        then show ?thesis using assms aw Inr cw by (simp add: HandleWindows_def)
      next
        case ch: (Inr ch)
        show ?thesis
        proof (cases "hWndCreated os")
          case None
          then show ?thesis using assms aw Inr cw ch by (simp add: HandleWindows_def)
        next
          case (Some h)
          obtain r trs where
            fl: "frame_loop c cb (counterFrequency os) (frames os) (loopStart os h w) = (r, trs)"
            by (cases "frame_loop c cb (counterFrequency os) (frames os) (loopStart os h w)")
          note hw = HandleWindows_loop [OF True Inr cw ch Some fl]
          have "EvMainGameUpdate s q \<in> set (concat trs)"
            using assms hw by (cases r) (auto simp add: afterLoop_eq split: if_splits)
          with fl show ?thesis by blast
        qed
      qed
    qed
  qed
qed

subsection \<open>The examples\<close>

lemmas example_defs = idleGame_def quittingGame_def releasingGame_def exampleOS_def
  quietPass_def unfocusedPass_def pass20_def earlyPass_def quitPass_def quitMessage_def
  readyLoop_def readyWorld_def startWorld_def exampleBuffer_def exampleMouse_def noMessage_def
  loopStart_def

lemma config_examples:
  "\<not> debug release50" "\<not> debug release60"
  "FRAMES_PER_SECOND release50 = 50" "FRAMES_PER_SECOND release60 = 60"
  by (simp_all add: release50_def release60_def)

lemmas loop_defs = iteration_def handleMessages_def PeekMessage_def callUpdate_def

lemma elapsed_examples:
  "elapsedMilliseconds 1000 0 10 = Inr 10" "elapsedMilliseconds 1000 0 20 = Inr 20"
  "elapsedMilliseconds 1000 0 25 = Inr 25"
  "elapsedMilliseconds 3000000000 0 49999999 = Inr (2345624759009637 / 140737488355328)"
  by (simp_all add: elapsedMilliseconds_def inInt64_def elapsedDouble_def float_eval)

lemma frameInterval_examples:
  "frameInterval release50 = 20" "frameInterval release60 = 8738133 / 524288"
  by (simp_all add: frameInterval_def release50_def release60_def float_eval)

lemma elapsedSeconds_examples:
  "elapsedSeconds 20 = 5368709 / 268435456" "elapsedSeconds 25 = 13421773 / 536870912"
  "elapsedSeconds (2345624759009637 / 140737488355328) = 1118481 / 67108864"
  by (simp_all add: elapsedSeconds_def float_eval)

lemmas clock_examples = elapsed_examples frameInterval_examples elapsedSeconds_examples
  config_examples

lemma quiet_pass:
  "iteration release50 idleGame 1000 quietPass readyLoop =
     (IterNext (readyLoop\<lparr>now := 25, elapsedTime := 25, lastDrawTime := 25\<rparr>),
      [EvPeekMessage None, EvQueryPerformanceCounter 10, EvQueryPerformanceCounter 25,
       EvMainGameUpdate (13421773 / 536870912) False, EvDwmFlush])"
  by (simp add: loop_defs example_defs clock_examples)

lemma example_run:
  "HandleWindows release50 idleGame exampleOS readyWorld =
     (Running, [EvCreateWindow 8 6 (Some 5), EvPeekMessage None, EvQueryPerformanceCounter 10,
                EvQueryPerformanceCounter 25, EvMainGameUpdate (13421773 / 536870912) False,
                EvDwmFlush])"
  by (simp add: HandleWindows_def assert_window_passes playBuffer_def checkedInt_def inInt_def
        loop_defs example_defs clock_examples)

subsection \<open>The frame interval\<close>

text \<open>
  Claim C1, as stated, has the update callback invoked only after
  \<open>1000 / FRAMES_PER_SECOND\<close> milliseconds and with at least \<open>1 / FRAMES_PER_SECOND\<close>
  seconds. The code compares the elapsed \<^verbatim>\<open>double\<close> with the \<^verbatim>\<open>float\<close>
  \<^verbatim>\<open>1000.0f / FRAMES_PER_SECOND\<close> and passes \<^verbatim>\<open>static_cast<float>(elapsedTime) / 1000.0f\<close>.
  At 50 frames per second, a clock of 1000 Hz and a reading 20 ticks after the stored
  timestamp, the callback receives a value below \<open>1 / 50\<close>. At 60 frames per second, a
  clock of 3 GHz and a reading 49999999 ticks after the timestamp, the wait ends and the
  callback is called although less than \<open>1000 / 60\<close> milliseconds have elapsed.
\<close>

theorem update_below_frame_interval:
  "iteration release50 idleGame 1000 pass20 readyLoop =
     (IterNext (readyLoop\<lparr>now := 20, elapsedTime := 20, lastDrawTime := 20\<rparr>),
      [EvPeekMessage None, EvQueryPerformanceCounter 20,
       EvMainGameUpdate (5368709 / 268435456) False, EvDwmFlush]) \<and>
   (5368709 / 268435456 :: real) < 1 / real_of_int (FRAMES_PER_SECOND release50) \<and>
   iteration release60 idleGame 3000000000 earlyPass readyLoop =
     (IterNext (readyLoop\<lparr>now := 49999999,
                          elapsedTime := 2345624759009637 / 140737488355328,
                          lastDrawTime := 49999999\<rparr>),
      [EvPeekMessage None, EvQueryPerformanceCounter 49999999,
       EvMainGameUpdate (1118481 / 67108864) False, EvDwmFlush]) \<and>
   real_of_int (49999999 - lastDrawTime readyLoop) * 1000 / 3000000000
     < 1000 / real_of_int (FRAMES_PER_SECOND release60) \<and>
   (1118481 / 67108864 :: real) < 1 / real_of_int (FRAMES_PER_SECOND release60)"
proof -
  have a: "iteration release50 idleGame 1000 pass20 readyLoop =
     (IterNext (readyLoop\<lparr>now := 20, elapsedTime := 20, lastDrawTime := 20\<rparr>),
      [EvPeekMessage None, EvQueryPerformanceCounter 20,
       EvMainGameUpdate (5368709 / 268435456) False, EvDwmFlush])"
    by (simp add: loop_defs example_defs clock_examples)
  have b: "iteration release60 idleGame 3000000000 earlyPass readyLoop =
     (IterNext (readyLoop\<lparr>now := 49999999,
                          elapsedTime := 2345624759009637 / 140737488355328,
                          lastDrawTime := 49999999\<rparr>),
      [EvPeekMessage None, EvQueryPerformanceCounter 49999999,
       EvMainGameUpdate (1118481 / 67108864) False, EvDwmFlush])"
    by (simp add: loop_defs example_defs clock_examples)
  have c: "(5368709 / 268435456 :: real) < 1 / real_of_int (FRAMES_PER_SECOND release50)"
    by (simp add: config_examples)
  have d: "real_of_int (49999999 - lastDrawTime readyLoop) * 1000 / 3000000000
             < 1000 / real_of_int (FRAMES_PER_SECOND release60)"
    by (simp add: config_examples readyLoop_def)
  have e: "(1118481 / 67108864 :: real) < 1 / real_of_int (FRAMES_PER_SECOND release60)"
    by (simp add: config_examples)
  show ?thesis by (intro conjI a b c d e)
qed

text \<open>
  Claim C1, amended: in a pass of the frame loop the update callback is invoked only
  after a clock reading \<open>t\<close> for which the elapsed milliseconds since the timestamp the
  previous pass stored (\<open>lastDrawTime\<close>), computed in \<^verbatim>\<open>double\<close> as
  \<^verbatim>\<open>(now - last) * 1000.0 / frequency\<close>, are not below the \<^verbatim>\<open>float\<close> threshold
  \<^verbatim>\<open>1000.0f / FRAMES_PER_SECOND\<close>. The call directly follows that reading, on the world
  the message handling of the pass left; its argument is the elapsed time converted to
  \<^verbatim>\<open>float\<close> and divided by \<^verbatim>\<open>1000.0f\<close>, which is at least the threshold divided by
  \<^verbatim>\<open>1000.0f\<close> in \<^verbatim>\<open>float\<close>; and \<open>t\<close> becomes the stored timestamp. So every call of the
  update callback during a run of \<^verbatim>\<open>HandleWindows\<close> receives at least that value.
\<close>

theorem update_only_after_frame_interval:
  "(\<forall>e ls r tr s q.
      iteration c cb freq e ls = (r, tr) \<and> EvMainGameUpdate s q \<in> set tr \<longrightarrow>
      (\<exists>ls1 tr1 ls' t pre.
         handleMessages e ls = (IterNext ls1, tr1) \<and>
         r = IterNext ls' \<and> lastDrawTime ls' = t \<and> quit ls' = q \<and>
         tr = pre @ [EvQueryPerformanceCounter t, EvMainGameUpdate s q, EvDwmFlush] \<and>
         (\<forall>ev \<in> set pre. \<not> isUpdate ev) \<and>
         frameInterval c \<le> elapsedDouble freq (lastDrawTime ls) t \<and>
         s = elapsedSeconds (elapsedDouble freq (lastDrawTime ls) t) \<and>
         MainGameUpdate cb s (lworld ls1) = (q, lworld ls') \<and>
         toFloat (frameInterval c / 1000) \<le> s)) \<and>
   (\<forall>os w s q.
      counterFrequency os = freq \<and>
      EvMainGameUpdate s q \<in> set (snd (HandleWindows c cb os w)) \<longrightarrow>
      toFloat (frameInterval c / 1000) \<le> s)"
proof (intro conjI allI impI)
  fix e :: iter_env and ls :: "'a loop_state" and r tr s q
  assume a: "iteration c cb freq e ls = (r, tr) \<and> EvMainGameUpdate s q \<in> set tr"
  from iteration_update [of c cb freq e ls r tr s q] a
  obtain ls1 tr1 ls' t pre where
    p: "handleMessages e ls = (IterNext ls1, tr1)"
       "r = IterNext ls'" "lastDrawTime ls' = t" "quit ls' = q"
       "tr = pre @ [EvQueryPerformanceCounter t, EvMainGameUpdate s q, EvDwmFlush]"
       "\<forall>ev \<in> set pre. \<not> isUpdate ev"
       "frameInterval c \<le> elapsedDouble freq (lastDrawTime ls) t"
       "s = elapsedSeconds (elapsedDouble freq (lastDrawTime ls) t)"
       "MainGameUpdate cb s (lworld ls1) = (q, lworld ls')"
    by blast
  have "toFloat (frameInterval c / 1000) \<le> s"
    using elapsedSeconds_bound [OF p(7)] p(8) by simp
  with p show "\<exists>ls1 tr1 ls' t pre.
         handleMessages e ls = (IterNext ls1, tr1) \<and>
         r = IterNext ls' \<and> lastDrawTime ls' = t \<and> quit ls' = q \<and>
         tr = pre @ [EvQueryPerformanceCounter t, EvMainGameUpdate s q, EvDwmFlush] \<and>
         (\<forall>ev \<in> set pre. \<not> isUpdate ev) \<and>
         frameInterval c \<le> elapsedDouble freq (lastDrawTime ls) t \<and>
         s = elapsedSeconds (elapsedDouble freq (lastDrawTime ls) t) \<and>
         MainGameUpdate cb s (lworld ls1) = (q, lworld ls') \<and>
         toFloat (frameInterval c / 1000) \<le> s"
    by blast
next
  fix os :: os_env and w :: "'a world" and s q
  assume a: "counterFrequency os = freq \<and>
            EvMainGameUpdate s q \<in> set (snd (HandleWindows c cb os w))"
  from HandleWindows_update [of s q c cb os w] a obtain h r trs where
    "frame_loop c cb (counterFrequency os) (frames os) (loopStart os h w) = (r, trs)"
    "EvMainGameUpdate s q \<in> set (concat trs)" by blast
  from frame_loop_update [OF this] show "toFloat (frameInterval c / 1000) \<le> s" .
qed

theorem update_only_after_frame_interval_witness:
  "(iteration release50 idleGame 1000 quietPass readyLoop =
      (IterNext (readyLoop\<lparr>now := 25, elapsedTime := 25, lastDrawTime := 25\<rparr>),
       [EvPeekMessage None, EvQueryPerformanceCounter 10, EvQueryPerformanceCounter 25,
        EvMainGameUpdate (13421773 / 536870912) False, EvDwmFlush]) \<and>
    EvMainGameUpdate (13421773 / 536870912) False
      \<in> set [EvPeekMessage None, EvQueryPerformanceCounter 10, EvQueryPerformanceCounter 25,
             EvMainGameUpdate (13421773 / 536870912) False, EvDwmFlush]) \<and>
   (\<exists>ls1 tr1 ls' t pre.
      handleMessages quietPass readyLoop = (IterNext ls1, tr1) \<and>
      IterNext (readyLoop\<lparr>now := 25, elapsedTime := 25, lastDrawTime := 25\<rparr>) = IterNext ls' \<and>
      lastDrawTime ls' = t \<and> quit ls' = False \<and>
      [EvPeekMessage None, EvQueryPerformanceCounter 10, EvQueryPerformanceCounter 25,
       EvMainGameUpdate (13421773 / 536870912) False, EvDwmFlush]
        = pre @ [EvQueryPerformanceCounter t, EvMainGameUpdate (13421773 / 536870912) False,
                 EvDwmFlush] \<and>
      (\<forall>ev \<in> set pre. \<not> isUpdate ev) \<and>
      frameInterval release50 \<le> elapsedDouble 1000 (lastDrawTime readyLoop) t \<and>
      13421773 / 536870912 = elapsedSeconds (elapsedDouble 1000 (lastDrawTime readyLoop) t) \<and>
      MainGameUpdate idleGame (13421773 / 536870912) (lworld ls1) = (False, lworld ls') \<and>
      toFloat (frameInterval release50 / 1000) \<le> 13421773 / 536870912) \<and>
   (counterFrequency exampleOS = 1000 \<and>
    EvMainGameUpdate (13421773 / 536870912) False
      \<in> set (snd (HandleWindows release50 idleGame exampleOS readyWorld))) \<and>
   toFloat (frameInterval release50 / 1000) \<le> 13421773 / 536870912 \<and>
   toFloat (frameInterval release50 / 1000) = 5368709 / 268435456"
proof -
  have i: "iteration release50 idleGame 1000 quietPass readyLoop =
      (IterNext (readyLoop\<lparr>now := 25, elapsedTime := 25, lastDrawTime := 25\<rparr>),
       [EvPeekMessage None, EvQueryPerformanceCounter 10, EvQueryPerformanceCounter 25,
        EvMainGameUpdate (13421773 / 536870912) False, EvDwmFlush]) \<and>
    EvMainGameUpdate (13421773 / 536870912) False
      \<in> set [EvPeekMessage None, EvQueryPerformanceCounter 10, EvQueryPerformanceCounter 25,
             EvMainGameUpdate (13421773 / 536870912) False, EvDwmFlush]"
    by (simp add: quiet_pass)
  have m: "counterFrequency exampleOS = 1000 \<and>
    EvMainGameUpdate (13421773 / 536870912) False
      \<in> set (snd (HandleWindows release50 idleGame exampleOS readyWorld))"
  proof
    show "counterFrequency exampleOS = 1000" by (simp add: exampleOS_def)
    show "EvMainGameUpdate (13421773 / 536870912) False
            \<in> set (snd (HandleWindows release50 idleGame exampleOS readyWorld))"
      by (simp add: example_run)
  qed
  have v: "toFloat (frameInterval release50 / 1000) = 5368709 / 268435456"
    by (simp add: frameInterval_examples float_eval)
  note t = update_only_after_frame_interval [of release50 idleGame 1000]
  note t1 = t [THEN conjunct1, THEN spec, THEN spec, THEN spec, THEN spec, THEN spec, THEN spec,
               THEN mp, OF i]
  note t2 = t [THEN conjunct2, THEN spec, THEN spec, THEN spec, THEN spec, THEN mp, OF m]
  show ?thesis
    by (intro conjI i [THEN conjunct1] i [THEN conjunct2] t1 m [THEN conjunct1]
          m [THEN conjunct2] t2 v)
qed

subsection \<open>The end of the loop\<close>





subsection \<open>Input focus\<close>





subsection \<open>Pending messages\<close>

text \<open>
  Claim C4, as stated, has every pass drain all pending messages before the wait and
  the update callback. The loop body retrieves a message with \<^verbatim>\<open>if (PeekMessage(...))\<close>:
  with two messages pending, the pass handles the first, waits and calls the update
  callback while the second is still in the queue.
\<close>

theorem pass_leaves_second_message_pending:
  "msgQueue (lworld busyLoop) @ arrivals quietPass = [leftDown, leftUp] \<and>
   iteration release50 idleGame 1000 quietPass busyLoop =
     (IterNext afterBusyPass,
      [EvPeekMessage (Some leftDown), EvTranslateAccelerator leftDown False,
       EvTranslateMessage leftDown, EvDispatchMessage leftDown, EvQueryPerformanceCounter 10, EvQueryPerformanceCounter 25,
       EvMainGameUpdate (13421773 / 536870912) False, EvDwmFlush]) \<and>
   msgQueue (lworld afterBusyPass) = [leftUp]"
  by (simp add: iteration_def handleMessages_def PeekMessage_def DispatchMessage_def WndProc_def
        assert_window_passes withZero_def writeMouseIfRegistered_def writeMouse_def
        callUpdate_def busyLoop_def afterBusyPass_def readyLoop_def readyWorld_def startWorld_def
        quietPass_def idleGame_def leftDown_def leftUp_def WM_defs clock_examples)

text \<open>Retrieval takes the oldest pending message.\<close>

lemma PeekMessage_oldest:
  "msgQueue w \<noteq> [] \<Longrightarrow> fst (PeekMessage w) = Some (hd (msgQueue w))"
  by (cases "msgQueue w") (simp_all add: PeekMessage_def)

lemma handleMessages_peek:
  assumes "handleMessages e ls = (r, tr)"
  shows "hd tr = EvPeekMessage (fst (PeekMessage ((lworld ls)\<lparr>msgQueue := msgQueue (lworld ls) @ arrivals e\<rparr>)))"
  using assms
  by (auto simp add: handleMessages_def split: prod.splits option.splits if_splits sum.splits)

text \<open>
  Claim C4, amended: every pass of the frame loop retrieves at most one pending message,
  the oldest, and handles it before the frame-interval wait and the update callback;
  the other pending messages stay in the queue for later passes. In the trace of a pass
  the single \<^verbatim>\<open>PeekMessage\<close> comes first, the events of handling its message follow, and
  no event after them concerns a message.
\<close>

theorem one_message_per_pass:
  assumes "iteration c cb freq e ls = (r, tr)"
  shows "\<exists>r1 m rest tr2.
           handleMessages e ls = (r1, EvPeekMessage m # rest) \<and>
           tr = EvPeekMessage m # rest @ tr2 \<and>
           (msgQueue (lworld ls) @ arrivals e \<noteq> [] \<longrightarrow>
              m = Some (hd (msgQueue (lworld ls) @ arrivals e))) \<and>
           (\<forall>ev \<in> set rest. isMessageEvent ev \<and> \<not> isPeek ev) \<and>
           (\<forall>ev \<in> set tr2. \<not> isMessageEvent ev) \<and>
           (\<forall>ls1. r1 = IterNext ls1 \<or> r1 = IterBreak ls1 \<longrightarrow>
              msgQueue (lworld ls1) = drop 1 (msgQueue (lworld ls) @ arrivals e))"
proof -
  obtain r1 tr1 where hm: "handleMessages e ls = (r1, tr1)"
    by (cases "handleMessages e ls")
  from handleMessages_trace [OF hm] obtain m rest where
    t1: "tr1 = EvPeekMessage m # rest" "\<forall>ev \<in> set rest. \<not> isPeek ev"
        "\<forall>ev \<in> set tr1. isMessageEvent ev"
    by blast
  have old: "msgQueue (lworld ls) @ arrivals e \<noteq> [] \<longrightarrow>
              m = Some (hd (msgQueue (lworld ls) @ arrivals e))"
    using handleMessages_peek [OF hm] t1(1)
      PeekMessage_oldest [of "(lworld ls)\<lparr>msgQueue := msgQueue (lworld ls) @ arrivals e\<rparr>"]
    by simp
  have q: "\<forall>ls1. r1 = IterNext ls1 \<or> r1 = IterBreak ls1 \<longrightarrow>
              msgQueue (lworld ls1) = drop 1 (msgQueue (lworld ls) @ arrivals e)"
    using handleMessages_Next [of e ls _ tr1] handleMessages_Break [of e ls _ tr1] hm by blast
  have "\<exists>tr2. tr = tr1 @ tr2 \<and> (\<forall>ev \<in> set tr2. \<not> isMessageEvent ev)"
    using assms
  proof (cases rule: iteration_cases)
    case stopped
    with hm show ?thesis by simp
  next
    case (pending ls1 tr1' used)
    with hm show ?thesis by auto
  next
    case (failed ls1 tr1' err used)
    with hm show ?thesis by auto
  next
    case (completed ls1 tr1' t el used ls3 tr3)
    from completed(3) have "\<forall>ev \<in> set tr3. \<not> isMessageEvent ev"
      by (cases rule: callUpdate_cases) auto
    with completed(1,5) hm show ?thesis by auto
  qed
  then obtain tr2 where t2: "tr = tr1 @ tr2" "\<forall>ev \<in> set tr2. \<not> isMessageEvent ev" by blast
  have "handleMessages e ls = (r1, EvPeekMessage m # rest)" using hm t1(1) by simp
  moreover have "tr = EvPeekMessage m # rest @ tr2" using t1(1) t2(1) by simp
  moreover have "\<forall>ev \<in> set rest. isMessageEvent ev \<and> \<not> isPeek ev" using t1 by simp
  ultimately show ?thesis using old q t2(2) by blast
qed

theorem one_message_per_pass_witness:
  "iteration release50 idleGame 1000 quietPass busyLoop =
     (IterNext afterBusyPass,
      [EvPeekMessage (Some leftDown), EvTranslateAccelerator leftDown False,
       EvTranslateMessage leftDown, EvDispatchMessage leftDown, EvQueryPerformanceCounter 10, EvQueryPerformanceCounter 25,
       EvMainGameUpdate (13421773 / 536870912) False, EvDwmFlush]) \<and>
   (\<exists>r1 m rest tr2.
      handleMessages quietPass busyLoop = (r1, EvPeekMessage m # rest) \<and>
      [EvPeekMessage (Some leftDown), EvTranslateAccelerator leftDown False,
       EvTranslateMessage leftDown, EvDispatchMessage leftDown, EvQueryPerformanceCounter 10, EvQueryPerformanceCounter 25,
       EvMainGameUpdate (13421773 / 536870912) False, EvDwmFlush] = EvPeekMessage m # rest @ tr2 \<and>
      (msgQueue (lworld busyLoop) @ arrivals quietPass \<noteq> [] \<longrightarrow>
         m = Some (hd (msgQueue (lworld busyLoop) @ arrivals quietPass))) \<and>
      (\<forall>ev \<in> set rest. isMessageEvent ev \<and> \<not> isPeek ev) \<and>
      (\<forall>ev \<in> set tr2. \<not> isMessageEvent ev) \<and>
      (\<forall>ls1. r1 = IterNext ls1 \<or> r1 = IterBreak ls1 \<longrightarrow>
         msgQueue (lworld ls1) = drop 1 (msgQueue (lworld busyLoop) @ arrivals quietPass)))"
proof -
  have p: "iteration release50 idleGame 1000 quietPass busyLoop =
     (IterNext afterBusyPass,
      [EvPeekMessage (Some leftDown), EvTranslateAccelerator leftDown False,
       EvTranslateMessage leftDown, EvDispatchMessage leftDown, EvQueryPerformanceCounter 10, EvQueryPerformanceCounter 25,
       EvMainGameUpdate (13421773 / 536870912) False, EvDwmFlush])"
    by (simp add: iteration_def handleMessages_def PeekMessage_def DispatchMessage_def WndProc_def
        assert_window_passes withZero_def writeMouseIfRegistered_def writeMouse_def
        callUpdate_def busyLoop_def afterBusyPass_def readyLoop_def readyWorld_def startWorld_def
        quietPass_def idleGame_def leftDown_def leftUp_def WM_defs clock_examples)
  note t = one_message_per_pass [OF p]
  show ?thesis by (intro conjI p t)
qed

subsection \<open>The invariant of the manager\<close>

lemma CreateManager_invariant:
  "CreateManager p n w = Inr (r, w') \<Longrightarrow> m_bCreated (win w') \<and> managerInvariant w'"
  by (auto simp add: CreateManager_def PLAY_ASSERT_def PLAY_ASSERT_MSG_def managerInvariant_def
        split: if_splits)

lemma invariant_kept:
  assumes "managerInvariant w"
  shows "DestroyManager w = Inr (r, w') \<Longrightarrow> managerInvariant w'"
    and "RegisterMouse p w = Inr w' \<Longrightarrow> managerInvariant w'"
    and "WndProc h m wp lp w = Inr (z, w') \<Longrightarrow> managerInvariant w'"
proof -
  show "DestroyManager w = Inr (r, w') \<Longrightarrow> managerInvariant w'"
    by (auto simp add: DestroyManager_def managerInvariant_def split: sum.splits)
  show "RegisterMouse p w = Inr w' \<Longrightarrow> managerInvariant w'"
    using assms by (auto simp add: RegisterMouse_def managerInvariant_def split: sum.splits)
  show "WndProc h m wp lp w = Inr (z, w') \<Longrightarrow> managerInvariant w'"
    using assms WndProc_keeps [of h m wp lp w z w'] by (simp add: managerInvariant_def)
qed

end
